theory Spec2Isabelle
  imports Complex_Main
begin

section \<open>Numbers and text\<close>

text \<open>
  JavaScript numbers are modelled as exact reals: every quantity the path generator and
  the renderer compute is a finite number built with \<open>min\<close>, \<open>max\<close>, \<open>+\<close>,
  \<open>-\<close>, \<open>*\<close> and \<open>/ 2\<close>. \<open>NaN\<close> and the infinities have no counterpart in
  \<^typ>\<open>real\<close>; where the source can produce \<open>NaN\<close> (\<open>parseFloat\<close>) the model
  returns \<^typ>\<open>real option\<close>.

  The conversion of a number to text inside a template literal (\<open>Number::toString\<close>) is a
  parameter \<open>str\<close> of the model; only its value at zero is fixed, which JavaScript prints
  as \<open>0\<close>.
\<close>

definition K :: real where
  "K = 552284749831 / 1000000000000"

definition num :: "(real \<Rightarrow> string) \<Rightarrow> real \<Rightarrow> string" where
  "num str x = (if x = 0 then ''0'' else str x)"

definition nl :: string where
  "nl = [CHR 0x0A]"

section \<open>Path generator\<close>

text \<open>
  An outline is the sequence of path commands written by the template literal of
  \<open>getSvgPath\<close>: \<open>M x,y\<close>, \<open>L x,y\<close>, \<open>C x1,y1 x2,y2 x,y\<close> and \<open>Z\<close>.
\<close>

datatype command =
    MoveTo real real
  | LineTo real real
  | CurveTo real real real real real real
  | ClosePath

text \<open>
  The text of the template literal around the numbers. A line of the literal that ends an
  \<open>M\<close> or \<open>L\<close> command has a blank before the line break, a line that ends a
  \<open>C\<close> command has none, and the closing \<open>Z\<close> follows the last curve after one
  blank. Continuation lines are indented by \<open>ind\<close> blanks (10 in the ESM build, 12 in
  the IIFE builds).
\<close>

fun pathString :: "(real \<Rightarrow> string) \<Rightarrow> nat \<Rightarrow> command list \<Rightarrow> string" where
  "pathString str ind [] = []"
| "pathString str ind (MoveTo x y # cs) =
     ''M '' @ num str x @ '','' @ num str y @ '' '' @ nl @ replicate ind CHR '' ''
       @ pathString str ind cs"
| "pathString str ind (LineTo x y # cs) =
     ''L '' @ num str x @ '','' @ num str y @ '' '' @ nl @ replicate ind CHR '' ''
       @ pathString str ind cs"
| "pathString str ind (CurveTo x1 y1 x2 y2 x y # cs) =
     ''C '' @ num str x1 @ '','' @ num str y1 @ '' '' @ num str x2 @ '','' @ num str y2
       @ '' '' @ num str x @ '','' @ num str y
       @ (if cs = [ClosePath] then '' '' else nl @ replicate ind CHR '' '')
       @ pathString str ind cs"
| "pathString str ind (ClosePath # cs) = ''Z'' @ pathString str ind cs"

text \<open>
  \<open>getSvgPath\<close> (the same function in every build). \<open>preserveSmoothing\<close> defaults to
  \<open>true\<close> when it is omitted; \<open>cpSmooth\<close> is computed and never used.
\<close>

definition getSvgPath_commands ::
  "real \<Rightarrow> real \<Rightarrow> real \<Rightarrow> real \<Rightarrow> bool option \<Rightarrow> command list" where
  "getSvgPath_commands width height cornerRadius cornerSmoothing preserveSmoothing_opt =
     (let preserveSmoothing = (case preserveSmoothing_opt of None \<Rightarrow> True | Some b \<Rightarrow> b);
          r = min cornerRadius (min (width / 2) (height / 2));
          smoothing = cornerSmoothing;
          cp = r * (1 - smoothing * K);
          cpSmooth = r * smoothing * K
      in [MoveTo r 0,
          LineTo (width - r) 0,
          CurveTo (width - cp) 0 width cp width r,
          LineTo width (height - r),
          CurveTo width (height - cp) (width - cp) height (width - r) height,
          LineTo r height,
          CurveTo cp height 0 (height - cp) 0 (height - r),
          LineTo 0 r,
          CurveTo 0 cp cp 0 r 0,
          ClosePath])"

definition getSvgPath ::
  "(real \<Rightarrow> string) \<Rightarrow> nat \<Rightarrow> real \<Rightarrow> real \<Rightarrow> real \<Rightarrow> real \<Rightarrow> bool option \<Rightarrow> string" where
  "getSvgPath str ind width height cornerRadius cornerSmoothing preserveSmoothing =
     pathString str ind
       (getSvgPath_commands width height cornerRadius cornerSmoothing preserveSmoothing)"

section \<open>The corner of the specification\<close>

text \<open>
  Stated from the specification, for comparison with \<open>getSvgPath\<close>: the outline whose
  corners are the standard cubic approximation of a circular arc of radius \<open>r\<close>, each
  control point at distance \<open>r * K\<close> from the adjacent end point of the arc, along the
  tangent there.
\<close>

definition circular_outline :: "real \<Rightarrow> real \<Rightarrow> real \<Rightarrow> command list" where
  "circular_outline width height r =
     [MoveTo r 0,
      LineTo (width - r) 0,
      CurveTo (width - r + r * K) 0 width (r - r * K) width r,
      LineTo width (height - r),
      CurveTo width (height - r + r * K) (width - r + r * K) height (width - r) height,
      LineTo r height,
      CurveTo (r - r * K) height 0 (height - r + r * K) 0 (height - r),
      LineTo 0 r,
      CurveTo 0 (r - r * K) (r - r * K) 0 r 0,
      ClosePath]"

section \<open>Page state\<close>

text \<open>
  Elements are named by numbers. The state holds what the renderer reads and writes of the
  page together with the module-level variables of the builds:
  \<^item> the platform: \<open>supports_empty_path\<close> is the answer of
    \<open>CSS.supports('clip-path', 'path("")')\<close>, which the original build asks at every
    render; \<open>supportsClipPathPath\<close> is the constant the fixed build computes when it is
    loaded; \<open>resizeObserverThrows\<close> says that constructing a \<open>ResizeObserver\<close>
    fails; \<open>observing\<close> lists the observers that are observing, each with the element
    and the options its callback has captured; \<open>console\<close> is the log;
  \<^item> the elements: the size of the bounding rectangle and of the client box, the
    attributes, the computed style the init helper reads, the computed position, the class
    list, the inline clip path and background, and the custom property
    \<open>--squircle-inner-bg\<close>;
  \<^item> the document: \<open>head\<close> is the list of generated \<open>style\<close> elements in
    document order, each a node with an identity; identities of new nodes and observers come
    from \<open>next_node\<close>;
  \<^item> the modules: the counter \<open>squircleCounter\<close> of every build, the weak maps
    \<open>CLASS_MAP\<close>, \<open>STYLE_MAP\<close> and \<open>SIZE_MAP\<close> of the fixed ESM build and the
    weak map \<open>elementObservers\<close> of the init helper.
  The cascade is not modelled: the computed position changes only where the renderer
  assigns the inline position.
\<close>

type_synonym elem = nat

record options =
  cornerRadius :: real
  cornerSmoothing :: real
  preserveSmoothing :: "bool option"
  borderWidth :: "real option"

text \<open>
  The text of a generated \<open>style\<close> element, reduced to the values interpolated into
  its template: the original build writes \<open>.c::before\<close> with \<open>top\<close>, \<open>left\<close>,
  \<open>width\<close>, \<open>height\<close> and \<open>clip-path\<close>; the fixed build writes \<open>inset\<close>,
  \<open>width\<close>, \<open>height\<close> and \<open>clip-path\<close>.
\<close>

datatype style_text =
    NoText
  | BeforeRule string real real real real string
  | InsetRule string real real real string

record style_element =
  node :: nat
  style_id :: string
  textContent :: style_text

record computed_style =
  borderTopWidth :: string
  borderTopColor :: string
  borderTopStyle :: string
  backgroundColor :: string
  backgroundImage :: string
  background :: string
  borderTopLeftRadius :: string

record state =
  supports_empty_path :: bool
  supportsClipPathPath :: bool
  resizeObserverThrows :: bool
  isHTMLElement :: "elem \<Rightarrow> bool"
  boundingRect :: "elem \<Rightarrow> real \<times> real"
  clientSize :: "elem \<Rightarrow> real \<times> real"
  attributes :: "elem \<Rightarrow> string \<Rightarrow> string option"
  computed :: "elem \<Rightarrow> computed_style"
  position :: "elem \<Rightarrow> string"
  classList :: "elem \<Rightarrow> string list"
  clipPath :: "elem \<Rightarrow> string"
  style_background :: "elem \<Rightarrow> string"
  inner_bg :: "elem \<Rightarrow> string option"
  head :: "style_element list"
  next_node :: nat
  observing :: "(nat \<times> elem \<times> options) list"
  console :: "string list"
  squircleCounter :: nat
  CLASS_MAP :: "elem \<Rightarrow> string option"
  STYLE_MAP :: "elem \<Rightarrow> nat option"
  SIZE_MAP :: "elem \<Rightarrow> (real \<times> real) option"
  elementObservers :: "elem \<Rightarrow> (nat \<times> options) option"

subsection \<open>Platform operations\<close>

definition dq :: string where
  "dq = [CHR 0x22]"

definition digit :: "nat \<Rightarrow> char" where
  "digit n = char_of (48 + n)"

text \<open>The decimal text of a counter value, as \<open>${++squircleCounter}\<close> prints it.\<close>

fun nat_str :: "nat \<Rightarrow> string" where
  "nat_str n = (if n < 10 then [digit n] else nat_str (n div 10) @ [digit (n mod 10)])"

declare nat_str.simps [simp del]

text \<open>
  The two template literals that name things: the class \<open>squircle-${n}\<close> of a counter
  value and the id \<open>squircle-style-${className}\<close> of the style element of a class.
\<close>

definition squircle_class :: "nat \<Rightarrow> string" where
  "squircle_class n = ''squircle-'' @ nat_str n"

definition style_key :: "string \<Rightarrow> string" where
  "style_key className = ''squircle-style-'' @ className"

definition classList_add :: "state \<Rightarrow> elem \<Rightarrow> string \<Rightarrow> state" where
  "classList_add st element c =
     (if c \<in> set (classList st element) then st
      else st\<lparr>classList := (classList st)(element := classList st element @ [c])\<rparr>)"

definition classList_remove :: "state \<Rightarrow> elem \<Rightarrow> string \<Rightarrow> state" where
  "classList_remove st element c =
     st\<lparr>classList := (classList st)(element := filter (\<lambda>d. d \<noteq> c) (classList st element))\<rparr>"

definition getElementById :: "state \<Rightarrow> string \<Rightarrow> style_element option" where
  "getElementById st i = find (\<lambda>s. style_id s = i) (head st)"

text \<open>
  \<open>document.createElement('style')\<close>, the assignment of its \<open>id\<close> and
  \<open>document.head.appendChild\<close>: the new node gets a fresh identity and goes last.
\<close>

definition appendStyle :: "state \<Rightarrow> string \<Rightarrow> state \<times> nat" where
  "appendStyle st i =
     (st\<lparr>head := head st @ [\<lparr>node = next_node st, style_id = i, textContent = NoText\<rparr>],
         next_node := next_node st + 1\<rparr>,
      next_node st)"

definition set_textContent :: "state \<Rightarrow> nat \<Rightarrow> style_text \<Rightarrow> state" where
  "set_textContent st n t =
     st\<lparr>head := map (\<lambda>s. if node s = n then s\<lparr>textContent := t\<rparr> else s) (head st)\<rparr>"

definition remove_node :: "state \<Rightarrow> nat \<Rightarrow> state" where
  "remove_node st n = st\<lparr>head := filter (\<lambda>s. node s \<noteq> n) (head st)\<rparr>"

text \<open>
  Assigning \<open>element.style.position = 'relative'\<close> makes the computed position
  \<open>relative\<close>.
\<close>

definition ensure_positioned :: "state \<Rightarrow> elem \<Rightarrow> state" where
  "ensure_positioned st element =
     (if position st element = ''static''
      then st\<lparr>position := (position st)(element := ''relative'')\<rparr> else st)"

definition set_clipPath :: "state \<Rightarrow> elem \<Rightarrow> string \<Rightarrow> state" where
  "set_clipPath st element v = st\<lparr>clipPath := (clipPath st)(element := v)\<rparr>"

definition path_value :: "string \<Rightarrow> string" where
  "path_value p = ''path('' @ dq @ p @ dq @ '')''"

text \<open>\<open>borderWidth && borderWidth > 0\<close>, for a width that may be omitted.\<close>

definition border_mode :: "real option \<Rightarrow> bool" where
  "border_mode bw = (case bw of None \<Rightarrow> False | Some b \<Rightarrow> b \<noteq> 0 \<and> b > 0)"

section \<open>Renderer, original build\<close>

text \<open>
  \<open>renderSquircle\<close> of the first ESM build; \<open>init.iife.js\<close> embeds the same function
  (with the template indented by 12 blanks). The border branch is a definition of its own.
\<close>

definition renderSquircle_border ::
  "(real \<Rightarrow> string) \<Rightarrow> nat \<Rightarrow> state \<Rightarrow> elem \<Rightarrow> options \<Rightarrow> real \<Rightarrow> real \<Rightarrow> real \<Rightarrow> state" where
  "renderSquircle_border str ind st element opts width height bw =
     (let st1 = st\<lparr>squircleCounter := squircleCounter st + 1\<rparr>;
          className = squircle_class (squircleCounter st1);
          st2 = classList_add st1 element className;
          outerPath = getSvgPath str ind width height
                        (cornerRadius opts) (cornerSmoothing opts) (preserveSmoothing opts);
          innerWidth = max 0 (width - bw * 2);
          innerHeight = max 0 (height - bw * 2);
          innerRadius = max 0 (cornerRadius opts - bw);
          innerPath = getSvgPath str ind innerWidth innerHeight
                        innerRadius (cornerSmoothing opts) (preserveSmoothing opts);
          st3 = set_clipPath st2 element (path_value outerPath);
          (st4, styleElement) =
            (case getElementById st3 (style_key className) of
               Some s \<Rightarrow> (st3, node s)
             | None \<Rightarrow> appendStyle st3 (style_key className));
          innerOffsetX = bw;
          innerOffsetY = bw;
          st5 = set_textContent st4 styleElement
                  (BeforeRule className innerOffsetY innerOffsetX innerWidth innerHeight innerPath)
      in ensure_positioned st5 element)"

definition renderSquircle ::
  "(real \<Rightarrow> string) \<Rightarrow> nat \<Rightarrow> state \<Rightarrow> elem \<Rightarrow> options \<Rightarrow> state" where
  "renderSquircle str ind st element opts =
     (if \<not> supports_empty_path st
      then st\<lparr>console := console st @
              [''clip-path with path() not supported, falling back to border-radius'']\<rparr>
      else
        let (width, height) = boundingRect st element in
        if width \<le> 0 \<or> height \<le> 0 then st
        else
          let svgPath = getSvgPath str ind width height
                          (cornerRadius opts) (cornerSmoothing opts) (preserveSmoothing opts)
          in if border_mode (borderWidth opts)
             then renderSquircle_border str ind st element opts width height
                    (case borderWidth opts of Some b \<Rightarrow> b | None \<Rightarrow> 0)
             else set_clipPath st element (path_value svgPath))"

section \<open>Renderer, fixed build\<close>

text \<open>
  The second ESM build caches the class name and the style node of an element in
  \<open>CLASS_MAP\<close> and \<open>STYLE_MAP\<close> and the last size in \<open>SIZE_MAP\<close>. Its test
  "size unchanged" has an empty body and is left out. \<open>borderWidth\<close> defaults to 0;
  \<open>cornerSmoothing\<close> is a field of the options record, so its default for an omitted
  value does not arise. The block "ensure persistent class", the border branch and the
  simple branch are definitions of their own; an empty class name is falsy.
\<close>

definition upsertBorderStyle ::
  "state \<Rightarrow> elem \<Rightarrow> string \<Rightarrow> string \<Rightarrow> real \<Rightarrow> real \<Rightarrow> real \<Rightarrow> state" where
  "upsertBorderStyle st el className innerPath innerWidth innerHeight bw =
     (let (st1, styleEl) =
            (case STYLE_MAP st el of
               Some n \<Rightarrow> (st, n)
             | None \<Rightarrow>
                 let (st', n) = appendStyle st (style_key className)
                 in (st'\<lparr>STYLE_MAP := (STYLE_MAP st')(el := Some n)\<rparr>, n))
      in set_textContent st1 styleEl (InsetRule className bw innerWidth innerHeight innerPath))"

definition ensure_class :: "state \<Rightarrow> elem \<Rightarrow> state \<times> string" where
  "ensure_class st element =
     (let allocated =
            (let s = st\<lparr>squircleCounter := squircleCounter st + 1\<rparr>;
                 className = squircle_class (squircleCounter s);
                 s' = s\<lparr>CLASS_MAP := (CLASS_MAP s)(element := Some className)\<rparr>
             in (classList_add s' element className, className))
      in case CLASS_MAP st element of
           None \<Rightarrow> allocated
         | Some className \<Rightarrow> if className \<noteq> [] then (st, className) else allocated)"

definition renderSquircle_fixed_border ::
  "(real \<Rightarrow> string) \<Rightarrow> nat \<Rightarrow> state \<Rightarrow> elem \<Rightarrow> options \<Rightarrow> real \<Rightarrow> real \<Rightarrow> real
     \<Rightarrow> string \<Rightarrow> state" where
  "renderSquircle_fixed_border str ind st element opts width height bw outerPath =
     (let (st2, className) = ensure_class st element;
          st3 = set_clipPath st2 element (path_value outerPath);
          innerWidth = max 0 (width - bw * 2);
          innerHeight = max 0 (height - bw * 2);
          innerRadius = max 0 (cornerRadius opts - bw);
          innerPath = getSvgPath str ind innerWidth innerHeight
                        innerRadius (cornerSmoothing opts) (preserveSmoothing opts);
          st4 = ensure_positioned st3 element
      in upsertBorderStyle st4 element className innerPath innerWidth innerHeight bw)"

definition renderSquircle_fixed_simple :: "state \<Rightarrow> elem \<Rightarrow> string \<Rightarrow> state" where
  "renderSquircle_fixed_simple st element outerPath =
     (let st2 =
            (case CLASS_MAP st element of
               None \<Rightarrow> st
             | Some className \<Rightarrow>
                 if className = [] then st
                 else
                   let s = classList_remove st element className;
                       s' = (case STYLE_MAP s element of
                               None \<Rightarrow> s
                             | Some n \<Rightarrow> remove_node s n)
                   in s'\<lparr>CLASS_MAP := (CLASS_MAP s')(element := None),
                         STYLE_MAP := (STYLE_MAP s')(element := None)\<rparr>)
      in set_clipPath st2 element (path_value outerPath))"

definition renderSquircle_fixed ::
  "(real \<Rightarrow> string) \<Rightarrow> nat \<Rightarrow> state \<Rightarrow> elem \<Rightarrow> options \<Rightarrow> state" where
  "renderSquircle_fixed str ind st element opts =
     (let bw = (case borderWidth opts of None \<Rightarrow> 0 | Some b \<Rightarrow> b) in
      if \<not> supportsClipPathPath st
      then st\<lparr>console := console st @
              [''clip-path: path() unsupported. Falling back to border-radius.'']\<rparr>
      else
        let (width, height) = clientSize st element in
        if width \<le> 0 \<or> height \<le> 0 then st
        else
          let st1 = st\<lparr>SIZE_MAP := (SIZE_MAP st)(element := Some (width, height))\<rparr>;
              outerPath = getSvgPath str ind width height
                            (cornerRadius opts) (cornerSmoothing opts) (preserveSmoothing opts)
          in if bw > 0
             then renderSquircle_fixed_border str ind st1 element opts width height bw outerPath
             else renderSquircle_fixed_simple st1 element outerPath)"

section \<open>Observation\<close>

text \<open>
  \<open>squircleObserver\<close> renders once and then constructs and starts a \<open>ResizeObserver\<close>.
  Where the platform has none the constructor throws after the first render has run; the
  result is then \<open>None\<close> beside the state the render left.
\<close>

definition squircleObserver ::
  "(real \<Rightarrow> string) \<Rightarrow> nat \<Rightarrow> state \<Rightarrow> elem \<Rightarrow> options \<Rightarrow> state \<times> nat option" where
  "squircleObserver str ind st element opts =
     (let st1 = renderSquircle str ind st element opts in
      if resizeObserverThrows st1 then (st1, None)
      else
        let observer = next_node st1
        in (st1\<lparr>next_node := next_node st1 + 1,
                 observing := observing st1 @ [(observer, element, opts)]\<rparr>,
            Some observer))"

text \<open>The callback of the observer, run by the platform with the changed targets.\<close>

definition resize_callback ::
  "(real \<Rightarrow> string) \<Rightarrow> nat \<Rightarrow> elem \<Rightarrow> options \<Rightarrow> elem list \<Rightarrow> state \<Rightarrow> state" where
  "resize_callback str ind element opts entries st =
     fold (\<lambda>target s. if target = element then renderSquircle str ind s element opts else s)
       entries st"

definition observer_disconnect :: "state \<Rightarrow> nat \<Rightarrow> state" where
  "observer_disconnect st observer =
     st\<lparr>observing := filter (\<lambda>(h, e, opts). h \<noteq> observer) (observing st)\<rparr>"

section \<open>Strings of the init helper\<close>

text \<open>
  The library functions the init helper calls, on byte strings: \<open>trim\<close>, \<open>split(',')\<close>,
  \<open>startsWith\<close>, \<open>parseFloat\<close> and \<open>match\<close> for the regular expressions the
  source writes. White space is the ASCII white space. \<open>parseFloat\<close> reads the longest decimal literal after leading white
  space, exactly (no rounding to a double, so no underflow to zero), and \<open>None\<close> is
  \<open>NaN\<close>; the literal \<open>Infinity\<close> is outside the model.
\<close>

definition isWhiteSpace :: "char \<Rightarrow> bool" where
  "isWhiteSpace c = (of_char c \<in> {9, 10, 11, 12, 13, 32 :: nat})"

definition isDigit :: "char \<Rightarrow> bool" where
  "isDigit c = (48 \<le> (of_char c :: nat) \<and> (of_char c :: nat) \<le> 57)"

definition digits_value :: "string \<Rightarrow> nat" where
  "digits_value ds = foldl (\<lambda>a c. 10 * a + (of_char c - 48)) 0 ds"

definition trim :: "string \<Rightarrow> string" where
  "trim s = rev (dropWhile isWhiteSpace (rev (dropWhile isWhiteSpace s)))"

fun split_comma :: "string \<Rightarrow> string list" where
  "split_comma [] = [[]]"
| "split_comma (c # cs) =
     (if c = CHR '','' then [] # split_comma cs
      else (case split_comma cs of x # xs \<Rightarrow> (c # x) # xs | [] \<Rightarrow> [[c]]))"

definition startsWith :: "string \<Rightarrow> string \<Rightarrow> bool" where
  "startsWith s p = (take (length p) s = p)"

definition read_sign :: "string \<Rightarrow> bool \<times> string" where
  "read_sign t =
     (case t of
        [] \<Rightarrow> (False, t)
      | c # r \<Rightarrow> if c = CHR ''-'' then (True, r) else if c = CHR ''+'' then (False, r)
                 else (False, t))"

definition read_exponent :: "string \<Rightarrow> int" where
  "read_exponent t =
     (case t of
        [] \<Rightarrow> 0
      | c # r \<Rightarrow>
          if c = CHR ''e'' \<or> c = CHR ''E''
          then (let (neg, r1) = read_sign r; ds = takeWhile isDigit r1
                in if ds = [] then 0
                   else if neg then - int (digits_value ds) else int (digits_value ds))
          else 0)"

definition scale10 :: "real \<Rightarrow> int \<Rightarrow> real" where
  "scale10 x e = (if 0 \<le> e then x * 10 ^ nat e else x / 10 ^ nat (- e))"

definition parseFloat :: "string \<Rightarrow> real option" where
  "parseFloat s =
     (let (neg, t1) = read_sign (dropWhile isWhiteSpace s);
          ip = takeWhile isDigit t1;
          t2 = dropWhile isDigit t1;
          (fp, t3) = (case t2 of
                        [] \<Rightarrow> ([], t2)
                      | c # r \<Rightarrow> if c = CHR ''.''
                                 then (takeWhile isDigit r, dropWhile isDigit r)
                                 else ([], t2));
          m = real (digits_value ip) + real (digits_value fp) / 10 ^ length fp
      in if ip = [] \<and> fp = [] then None
         else Some (scale10 (if neg then - m else m) (read_exponent t3)))"

text \<open>\<open>x || d\<close> for a number \<open>x\<close>: \<open>NaN\<close> and zero are falsy.\<close>

definition or_default :: "real option \<Rightarrow> real \<Rightarrow> real" where
  "or_default x d = (case x of None \<Rightarrow> d | Some v \<Rightarrow> if v = 0 then d else v)"

subsection \<open>Regular expressions\<close>

text \<open>
  The fragment the source uses: a character, an optional character (greedy), one or more
  characters other than a given one (greedy, giving characters back on failure), and
  numbered capture groups. \<open>rx_run\<close> matches at the start of the text, \<open>rx_search\<close>
  is \<open>String.prototype.match\<close> without the \<open>g\<close> flag: the leftmost match, as its
  captures. The flag \<open>i\<close> compares letters without case.
\<close>

datatype rx_item = Ch char | OptCh char | PlusNot char | Open nat | Close nat

definition lower :: "char \<Rightarrow> char" where
  "lower c = (if 65 \<le> (of_char c :: nat) \<and> (of_char c :: nat) \<le> 90
              then char_of ((of_char c :: nat) + 32) else c)"

definition same_char :: "bool \<Rightarrow> char \<Rightarrow> char \<Rightarrow> bool" where
  "same_char ci x c = (if ci then lower x = lower c else x = c)"

fun first_some :: "'a option list \<Rightarrow> 'a option" where
  "first_some [] = None"
| "first_some (None # xs) = first_some xs"
| "first_some (Some x # xs) = Some x"

fun rx_run ::
  "bool \<Rightarrow> rx_item list \<Rightarrow> string \<Rightarrow> string \<Rightarrow> (nat \<Rightarrow> nat) \<Rightarrow> (nat \<Rightarrow> string option)
     \<Rightarrow> (nat \<Rightarrow> string option) option" where
  "rx_run ci [] s consumed starts caps = Some caps"
| "rx_run ci (Ch c # items) s consumed starts caps =
     (case s of
        [] \<Rightarrow> None
      | x # xs \<Rightarrow> if same_char ci x c then rx_run ci items xs (consumed @ [x]) starts caps
                  else None)"
| "rx_run ci (OptCh c # items) s consumed starts caps =
     (case s of
        [] \<Rightarrow> rx_run ci items s consumed starts caps
      | x # xs \<Rightarrow>
          if same_char ci x c
          then (case rx_run ci items xs (consumed @ [x]) starts caps of
                  Some r \<Rightarrow> Some r
                | None \<Rightarrow> rx_run ci items s consumed starts caps)
          else rx_run ci items s consumed starts caps)"
| "rx_run ci (PlusNot c # items) s consumed starts caps =
     first_some
       (map (\<lambda>n. rx_run ci items (drop n s) (consumed @ take n s) starts caps)
          (rev [1 ..< Suc (length (takeWhile (\<lambda>x. x \<noteq> c) s))]))"
| "rx_run ci (Open g # items) s consumed starts caps =
     rx_run ci items s consumed (starts(g := length consumed)) caps"
| "rx_run ci (Close g # items) s consumed starts caps =
     rx_run ci items s consumed starts (caps(g := Some (drop (starts g) consumed)))"

fun rx_search :: "bool \<Rightarrow> rx_item list \<Rightarrow> string \<Rightarrow> (nat \<Rightarrow> string option) option" where
  "rx_search ci items [] = rx_run ci items [] [] (\<lambda>g. 0) (\<lambda>g. None)"
| "rx_search ci items (x # xs) =
     (case rx_run ci items (x # xs) [] (\<lambda>g. 0) (\<lambda>g. None) of
        Some caps \<Rightarrow> Some caps
      | None \<Rightarrow> rx_search ci items xs)"

section \<open>Init helper\<close>

text \<open>
  \<open>isTransparentColor\<close> of \<open>init.iife.js\<close>. Its pattern is written
  \<open>/rgba?\\(([^)]+)\\)/\<close>: each doubled backslash stands for one backslash character
  of the text, so the parentheses are two nested capture groups and the pattern reads
  \<open>rgb\<close>, an optional \<open>a\<close>, a backslash, then as group 1 the non-empty run of
  group 2 followed by a backslash.
\<close>

definition rgba_pattern :: "rx_item list" where
  "rgba_pattern =
     [Ch CHR ''r'', Ch CHR ''g'', Ch CHR ''b'', OptCh CHR ''a'', Ch (CHR 0x5C),
      Open 1, Open 2, PlusNot CHR '')'', Close 2, Ch (CHR 0x5C), Close 1]"

definition isTransparentColor :: "string \<Rightarrow> bool" where
  "isTransparentColor color =
     (if color = [] \<or> color = ''transparent'' \<or> color = ''rgba(0, 0, 0, 0)'' then True
      else
        (case rx_search False rgba_pattern color of
           None \<Rightarrow> False
         | Some rgbaMatch \<Rightarrow>
             (case rgbaMatch 1 of
                None \<Rightarrow> False
              | Some g \<Rightarrow>
                  let values = map trim (split_comma g)
                  in if length values = 4 \<and> parseFloat (values ! 3) = Some 0 then True
                     else False)))"

text \<open>
  \<open>isTransparentColor\<close> of the second init build (\<open>src/unnamed/part_000\<close>), with the
  pattern \<open>/rgba?\(([^)]+)\)/i\<close>: \<open>rgb\<close>, an optional \<open>a\<close>, an opening
  parenthesis, as group 1 a non-empty run without \<open>)\<close>, and a closing parenthesis.
\<close>

definition rgba_pattern_part_000 :: "rx_item list" where
  "rgba_pattern_part_000 =
     [Ch CHR ''r'', Ch CHR ''g'', Ch CHR ''b'', OptCh CHR ''a'', Ch CHR ''('',
      Open 1, PlusNot CHR '')'', Close 1, Ch CHR '')'']"

definition isTransparentColor_part_000 :: "string \<Rightarrow> bool" where
  "isTransparentColor_part_000 color =
     (if color = [] \<or> color = ''transparent'' \<or> color = ''rgba(0, 0, 0, 0)'' then True
      else
        (case rx_search True rgba_pattern_part_000 color of
           None \<Rightarrow> False
         | Some rgbaMatch \<Rightarrow>
             (case rgbaMatch 1 of
                None \<Rightarrow> False
              | Some g \<Rightarrow>
                  let values = map trim (split_comma g)
                  in if length values = 4 \<and> parseFloat (values ! 3) = Some 0 then True
                     else False)))"

record border_info =
  border_width :: real
  border_color :: string
  hasSolidBorder :: bool

record background_info =
  inner :: string
  hasGradient :: bool
  hasSolidBackground :: bool

definition getBorderInfo :: "state \<Rightarrow> elem \<Rightarrow> border_info" where
  "getBorderInfo st element =
     (let c = computed st element;
          bw = or_default (parseFloat (borderTopWidth c)) 0;
          borderColor = borderTopColor c;
          borderStyle = borderTopStyle c;
          solid = (bw > 0 \<and> borderStyle \<noteq> ''none'' \<and> \<not> isTransparentColor borderColor)
      in \<lparr>border_width = (if solid then bw else 0), border_color = borderColor,
          hasSolidBorder = solid\<rparr>)"

definition getBackgroundInfo :: "state \<Rightarrow> elem \<Rightarrow> background_info" where
  "getBackgroundInfo st element =
     (let c = computed st element;
          gradient = (backgroundImage c \<noteq> [] \<and> backgroundImage c \<noteq> ''none'');
          solid = (\<not> isTransparentColor (backgroundColor c));
          innerBackground = (if gradient then background c
                             else if solid then backgroundColor c else [])
      in \<lparr>inner = innerBackground, hasGradient = gradient, hasSolidBackground = solid\<rparr>)"

text \<open>
  \<open>initializeElement\<close>, in three parts. The first is the \<open>options\<close> object the
  function builds from the two attributes and the computed style, with \<open>borderWidth\<close>
  set when the element has a solid border. The second is what the function writes to the
  element in that case: the border colour as background and, when there is an inner
  background, the custom property. The third is the function itself. \<open>getAttribute\<close>
  gives \<open>None\<close> for a missing attribute; a missing or empty smoothing attribute is falsy
  and ends the function. The failure of \<open>squircleObserver\<close> is caught and logged, and the
  element stays untracked.
\<close>

definition initializeElement_options :: "state \<Rightarrow> elem \<Rightarrow> string \<Rightarrow> options" where
  "initializeElement_options st element cornerSmoothingAttr =
     (let smoothing = max 0 (min 1 (or_default (parseFloat cornerSmoothingAttr) 1));
          radius =
            (case attributes st element ''data-corner-radius'' of
               None \<Rightarrow> or_default (parseFloat (borderTopLeftRadius (computed st element))) 16
             | Some cornerRadiusAttr \<Rightarrow>
                 if cornerRadiusAttr \<noteq> []
                 then or_default (parseFloat cornerRadiusAttr) 16
                 else or_default (parseFloat (borderTopLeftRadius (computed st element))) 16);
          borderInfo = getBorderInfo st element;
          opts = \<lparr>cornerRadius = radius, cornerSmoothing = smoothing,
                  preserveSmoothing = Some True, borderWidth = None\<rparr>
      in if hasSolidBorder borderInfo
         then opts\<lparr>borderWidth := Some (border_width borderInfo)\<rparr>
         else opts)"

definition initializeElement_styles :: "state \<Rightarrow> elem \<Rightarrow> state" where
  "initializeElement_styles st element =
     (let borderInfo = getBorderInfo st element;
          backgroundInfo = getBackgroundInfo st element
      in if hasSolidBorder borderInfo
         then
           (let s = st\<lparr>style_background :=
                       (style_background st)(element := border_color borderInfo)\<rparr>
            in if inner backgroundInfo \<noteq> []
               then s\<lparr>inner_bg := (inner_bg s)(element := Some (inner backgroundInfo))\<rparr>
               else s)
         else st)"

definition initializeElement :: "(real \<Rightarrow> string) \<Rightarrow> state \<Rightarrow> elem \<Rightarrow> state" where
  "initializeElement str st element =
     (if elementObservers st element \<noteq> None then st
      else
        (case attributes st element ''data-corner-smoothing'' of
           None \<Rightarrow> st
         | Some cornerSmoothingAttr \<Rightarrow>
             if cornerSmoothingAttr = [] then st
             else
               let opts = initializeElement_options st element cornerSmoothingAttr;
                   st1 = initializeElement_styles st element;
                   (st2, result) = squircleObserver str 12 st1 element opts
               in (case result of
                     Some observer \<Rightarrow>
                       st2\<lparr>elementObservers :=
                             (elementObservers st2)(element := Some (observer, opts))\<rparr>
                   | None \<Rightarrow>
                       st2\<lparr>console := console st2 @
                             [''Failed to initialize corner smoothing on element:'']\<rparr>)))"

text \<open>
  \<open>scan\<close> over the elements \<open>querySelectorAll\<close> finds under the root, in document
  order: those that carry the attribute when the scan starts.
\<close>

definition scan :: "(real \<Rightarrow> string) \<Rightarrow> state \<Rightarrow> elem list \<Rightarrow> state" where
  "scan str st elements =
     fold (\<lambda>element s. if isHTMLElement s element then initializeElement str s element else s)
       (filter (\<lambda>e. attributes st e ''data-corner-smoothing'' \<noteq> None) elements) st"

text \<open>
  \<open>disconnect\<close>. The callback of \<open>classes.forEach\<close> is a definition of its own.
\<close>

definition remove_squircle_class :: "elem \<Rightarrow> string \<Rightarrow> state \<Rightarrow> state" where
  "remove_squircle_class element className s =
     (if startsWith className ''squircle-''
      then
        (let s1 = classList_remove s element className
         in case getElementById s1 (style_key className) of
              Some styleElement \<Rightarrow> remove_node s1 (node styleElement)
            | None \<Rightarrow> s1)
      else s)"

definition disconnect :: "state \<Rightarrow> elem \<Rightarrow> state" where
  "disconnect st element =
     (case elementObservers st element of
        None \<Rightarrow> st
      | Some (observer, opts) \<Rightarrow>
          let st1 = observer_disconnect st observer;
              st2 = st1\<lparr>elementObservers := (elementObservers st1)(element := None)\<rparr>;
              st3 = set_clipPath st2 element [];
              st4 = st3\<lparr>inner_bg := (inner_bg st3)(element := None)\<rparr>;
              classes = classList st4 element
          in fold (remove_squircle_class element) classes st4)"

section \<open>Runs of the init helper\<close>

text \<open>
  What happens to a page that loads the init helper: calls of \<open>scan\<close> and
  \<open>disconnect\<close>, resize notifications delivered by the platform to an observer that is
  still observing, and changes of layout, computed styles and attributes made by the page
  itself. A run is a list of such events, applied in order.
\<close>

datatype event =
    Scan "elem list"
  | Disconnect elem
  | Resized nat "elem list"
  | Layout "elem \<Rightarrow> real \<times> real"
  | Restyle "elem \<Rightarrow> computed_style"
  | SetAttributes "elem \<Rightarrow> string \<Rightarrow> string option"

definition deliver :: "(real \<Rightarrow> string) \<Rightarrow> state \<Rightarrow> nat \<Rightarrow> elem list \<Rightarrow> state" where
  "deliver str st observer entries =
     (case find (\<lambda>(h, e, opts). h = observer) (observing st) of
        None \<Rightarrow> st
      | Some (h, e, opts) \<Rightarrow> resize_callback str 12 e opts entries st)"

fun step :: "(real \<Rightarrow> string) \<Rightarrow> event \<Rightarrow> state \<Rightarrow> state" where
  "step str (Scan elements) st = scan str st elements"
| "step str (Disconnect element) st = disconnect st element"
| "step str (Resized observer entries) st = deliver str st observer entries"
| "step str (Layout boxes) st = st\<lparr>boundingRect := boxes\<rparr>"
| "step str (Restyle styles) st = st\<lparr>computed := styles\<rparr>"
| "step str (SetAttributes attrs) st = st\<lparr>attributes := attrs\<rparr>"

fun run :: "(real \<Rightarrow> string) \<Rightarrow> event list \<Rightarrow> state \<Rightarrow> state" where
  "run str [] st = st"
| "run str (ev # evs) st = run str evs (step str ev st)"

section \<open>A sample page\<close>

text \<open>
  A page for running the functions: the platform supports path clipping, every element is
  unstyled, statically positioned and of size zero, nothing has been rendered and the
  module variables have their initial values.
\<close>

definition unstyled :: computed_style where
  "unstyled = \<lparr>borderTopWidth = ''0px'', borderTopColor = ''rgb(0, 0, 0)'',
               borderTopStyle = ''none'', backgroundColor = ''rgba(0, 0, 0, 0)'',
               backgroundImage = ''none'', background = [], borderTopLeftRadius = ''0px''\<rparr>"

definition sample_page :: state where
  "sample_page =
     \<lparr>supports_empty_path = True, supportsClipPathPath = True, resizeObserverThrows = False,
      isHTMLElement = (\<lambda>e. True),
      boundingRect = (\<lambda>e. (0, 0)), clientSize = (\<lambda>e. (0, 0)),
      attributes = (\<lambda>e a. None), computed = (\<lambda>e. unstyled),
      position = (\<lambda>e. ''static''), classList = (\<lambda>e. []), clipPath = (\<lambda>e. []),
      style_background = (\<lambda>e. []), inner_bg = (\<lambda>e. None),
      head = [], next_node = 0, observing = [], console = [],
      squircleCounter = 0, CLASS_MAP = (\<lambda>e. None), STYLE_MAP = (\<lambda>e. None),
      SIZE_MAP = (\<lambda>e. None), elementObservers = (\<lambda>e. None)\<rparr>"

text \<open>The sample page with element 0 measuring \<open>w\<close> by \<open>h\<close>.\<close>

definition page_with_box :: "real \<Rightarrow> real \<Rightarrow> state" where
  "page_with_box w h =
     sample_page\<lparr>boundingRect := (\<lambda>e. if e = 0 then (w, h) else (0, 0)),
                 clientSize := (\<lambda>e. if e = 0 then (w, h) else (0, 0))\<rparr>"

text \<open>
  The same page with the two attributes of element 0 that the init helper reads, and the
  options of a border-mode and of a simple-mode render.
\<close>

definition page_with_attributes :: "string option \<Rightarrow> string option \<Rightarrow> state" where
  "page_with_attributes smoothing radius =
     (page_with_box 100 50)\<lparr>attributes :=
        (\<lambda>e a. if e = 0 \<and> a = ''data-corner-smoothing'' then smoothing
               else if e = 0 \<and> a = ''data-corner-radius'' then radius
               else None)\<rparr>"

definition border_options :: options where
  "border_options = \<lparr>cornerRadius = 10, cornerSmoothing = 1, preserveSmoothing = None,
                      borderWidth = Some 4\<rparr>"

definition simple_options :: options where
  "simple_options = \<lparr>cornerRadius = 10, cornerSmoothing = 1, preserveSmoothing = None,
                      borderWidth = None\<rparr>"

text \<open>
  The page whose element 0 asks for smoothing 1 and has a solid red border of 4 pixels.
\<close>

definition bordered_page :: state where
  "bordered_page =
     (page_with_attributes (Some ''1'') None)\<lparr>computed :=
        (\<lambda>e. if e = 0
             then unstyled\<lparr>borderTopWidth := ''4px'', borderTopStyle := ''solid'',
                           borderTopColor := ''rgb(255, 0, 0)''\<rparr>
             else unstyled)\<rparr>"

text \<open>
  A run on the bordered page: a scan, a change of layout, and the resize notification of the
  observer the scan has started.
\<close>

definition sample_run :: "event list" where
  "sample_run = [Scan [0], Layout (\<lambda>e. (200, 100)), Resized 1 [0]]"

section \<open>Observations\<close>

text \<open>The text of the style element that \<open>getElementById\<close> finds, if there is one.\<close>

definition style_text_at :: "state \<Rightarrow> string \<Rightarrow> style_text option" where
  "style_text_at st i = map_option textContent (getElementById st i)"

text \<open>
  The bookkeeping that runs of the init helper maintain: the style elements of the document
  head have distinct ids, and each is the style element of a generated class that some
  element still carries.
\<close>

definition styles_owned :: "state \<Rightarrow> bool" where
  "styles_owned st \<longleftrightarrow>
     distinct (map style_id (head st)) \<and>
     (\<forall>i \<in> set (map style_id (head st)).
        \<exists>e c. c \<in> set (classList st e) \<and> startsWith c ''squircle-'' \<and> i = style_key c)"

section \<open>Runs of the fixed build\<close>

text \<open>
  A page that uses the fixed build calls \<open>renderSquircle\<close> (directly or from the resize
  observer) and changes the client boxes of its elements, in any order.
\<close>

datatype render_call = Render elem options | ClientLayout "elem \<Rightarrow> real \<times> real"

fun fixed_step :: "(real \<Rightarrow> string) \<Rightarrow> nat \<Rightarrow> render_call \<Rightarrow> state \<Rightarrow> state" where
  "fixed_step str ind (Render element opts) st = renderSquircle_fixed str ind st element opts"
| "fixed_step str ind (ClientLayout boxes) st = st\<lparr>clientSize := boxes\<rparr>"

fun fixed_run :: "(real \<Rightarrow> string) \<Rightarrow> nat \<Rightarrow> render_call list \<Rightarrow> state \<Rightarrow> state" where
  "fixed_run str ind [] st = st"
| "fixed_run str ind (c # cs) st = fixed_run str ind cs (fixed_step str ind c st)"

text \<open>
  The bookkeeping of the fixed build: the style nodes of the document head are distinct and
  older than the next node, each belongs to an element through \<open>STYLE_MAP\<close>, the
  style node of an element is in the head and the element has a class in
  \<open>CLASS_MAP\<close>, and no two elements share a style node.
\<close>

definition fixed_inv :: "state \<Rightarrow> bool" where
  "fixed_inv st \<longleftrightarrow>
     distinct (map node (head st))
     \<and> (\<forall>n \<in> set (map node (head st)). n < next_node st \<and> (\<exists>e. STYLE_MAP st e = Some n))
     \<and> (\<forall>e n. STYLE_MAP st e = Some n \<longrightarrow>
            n \<in> set (map node (head st)) \<and> (\<exists>c. CLASS_MAP st e = Some c \<and> c \<noteq> []))
     \<and> (\<forall>e e' n. STYLE_MAP st e = Some n \<longrightarrow> STYLE_MAP st e' = Some n \<longrightarrow> e = e')"

section \<open>Properties of the path generator\<close>

text \<open>
  The text of the outline, written out: the template of \<open>getSvgPath\<close> with its nine
  lines, every number in the place the source puts it.
\<close>

lemma num_zero: "num str 0 = ''0''"
  by (simp add: num_def)

lemma getSvgPath_text:
  "getSvgPath str ind width height radius s ps =
     (let r = min radius (min (width / 2) (height / 2));
          cp = r * (1 - s * K);
          sp = replicate ind CHR '' ''
      in ''M '' @ num str r @ '',0 '' @ nl @ sp
         @ ''L '' @ num str (width - r) @ '',0 '' @ nl @ sp
         @ ''C '' @ num str (width - cp) @ '',0 '' @ num str width @ '','' @ num str cp
           @ '' '' @ num str width @ '','' @ num str r @ nl @ sp
         @ ''L '' @ num str width @ '','' @ num str (height - r) @ '' '' @ nl @ sp
         @ ''C '' @ num str width @ '','' @ num str (height - cp) @ '' ''
           @ num str (width - cp) @ '','' @ num str height @ '' ''
           @ num str (width - r) @ '','' @ num str height @ nl @ sp
         @ ''L '' @ num str r @ '','' @ num str height @ '' '' @ nl @ sp
         @ ''C '' @ num str cp @ '','' @ num str height @ '' 0,'' @ num str (height - cp)
           @ '' 0,'' @ num str (height - r) @ nl @ sp
         @ ''L 0,'' @ num str r @ '' '' @ nl @ sp
         @ ''C 0,'' @ num str cp @ '' '' @ num str cp @ '',0 '' @ num str r @ '',0 Z'')"
  by (simp add: getSvgPath_def getSvgPath_commands_def Let_def num_zero)

text \<open>
  C1. For a box of positive width and height and a non-negative requested radius, the
  outline that \<open>getSvgPath\<close> returns, as commands and as the text itself, is built
  on the effective radius \<open>r = min(cornerRadius, width/2, height/2)\<close> and the
  control offset \<open>cp = r * (1 - cornerSmoothing * K)\<close>; this radius is non-negative
  and at most half of each side, so opposite corners do not overlap. For a box of 100 by
  100, radius 20 and smoothing 1 the effective radius is 20, the control offset is
  \<open>20 * (1 - K)\<close>, between 8.954 and 8.955, and the returned text starts at (20,0),
  draws its first edge to (80,0) and goes on with the corners built on that offset.
\<close>

theorem getSvgPath_effective_radius:
  assumes "0 < width" and "0 < height" and "0 \<le> radius"
  shows "(let r = min radius (min (width / 2) (height / 2));
              cp = r * (1 - s * K);
              sp = replicate ind CHR '' ''
          in getSvgPath_commands width height radius s ps =
               [MoveTo r 0,
                LineTo (width - r) 0,
                CurveTo (width - cp) 0 width cp width r,
                LineTo width (height - r),
                CurveTo width (height - cp) (width - cp) height (width - r) height,
                LineTo r height,
                CurveTo cp height 0 (height - cp) 0 (height - r),
                LineTo 0 r,
                CurveTo 0 cp cp 0 r 0,
                ClosePath]
             \<and> getSvgPath str ind width height radius s ps =
                 ''M '' @ num str r @ '',0 '' @ nl @ sp
                 @ ''L '' @ num str (width - r) @ '',0 '' @ nl @ sp
                 @ ''C '' @ num str (width - cp) @ '',0 '' @ num str width @ '','' @ num str cp
                   @ '' '' @ num str width @ '','' @ num str r @ nl @ sp
                 @ ''L '' @ num str width @ '','' @ num str (height - r) @ '' '' @ nl @ sp
                 @ ''C '' @ num str width @ '','' @ num str (height - cp) @ '' ''
                   @ num str (width - cp) @ '','' @ num str height @ '' ''
                   @ num str (width - r) @ '','' @ num str height @ nl @ sp
                 @ ''L '' @ num str r @ '','' @ num str height @ '' '' @ nl @ sp
                 @ ''C '' @ num str cp @ '','' @ num str height @ '' 0,''
                   @ num str (height - cp) @ '' 0,'' @ num str (height - r) @ nl @ sp
                 @ ''L 0,'' @ num str r @ '' '' @ nl @ sp
                 @ ''C 0,'' @ num str cp @ '' '' @ num str cp @ '',0 '' @ num str r @ '',0 Z''
             \<and> 0 \<le> r \<and> r \<le> radius \<and> r \<le> width - r \<and> r \<le> height - r)
         \<and> getSvgPath_commands 100 100 20 1 ps =
               [MoveTo 20 0,
                LineTo 80 0,
                CurveTo (100 - 20 * (1 - K)) 0 100 (20 * (1 - K)) 100 20,
                LineTo 100 80,
                CurveTo 100 (100 - 20 * (1 - K)) (100 - 20 * (1 - K)) 100 80 100,
                LineTo 20 100,
                CurveTo (20 * (1 - K)) 100 0 (100 - 20 * (1 - K)) 0 80,
                LineTo 0 20,
                CurveTo 0 (20 * (1 - K)) (20 * (1 - K)) 0 20 0,
                ClosePath]
         \<and> 8954 / 1000 < 20 * (1 - K) \<and> 20 * (1 - K) < 8955 / 1000
         \<and> getSvgPath str ind 100 100 20 1 ps =
               (let sp = replicate ind CHR '' ''; cp = str (20 * (1 - K));
                    far = str (100 - 20 * (1 - K))
                in ''M '' @ str 20 @ '',0 '' @ nl @ sp
                   @ ''L '' @ str 80 @ '',0 '' @ nl @ sp
                   @ ''C '' @ far @ '',0 '' @ str 100 @ '','' @ cp
                     @ '' '' @ str 100 @ '','' @ str 20 @ nl @ sp
                   @ ''L '' @ str 100 @ '','' @ str 80 @ '' '' @ nl @ sp
                   @ ''C '' @ str 100 @ '','' @ far @ '' '' @ far @ '','' @ str 100 @ '' ''
                     @ str 80 @ '','' @ str 100 @ nl @ sp
                   @ ''L '' @ str 20 @ '','' @ str 100 @ '' '' @ nl @ sp
                   @ ''C '' @ cp @ '','' @ str 100 @ '' 0,'' @ far
                     @ '' 0,'' @ str 80 @ nl @ sp
                   @ ''L 0,'' @ str 20 @ '' '' @ nl @ sp
                   @ ''C 0,'' @ cp @ '' '' @ cp @ '',0 '' @ str 20 @ '',0 Z'')"
proof -
  have general: "getSvgPath_commands width height radius s ps =
      (let r = min radius (min (width / 2) (height / 2)); cp = r * (1 - s * K)
       in [MoveTo r 0, LineTo (width - r) 0, CurveTo (width - cp) 0 width cp width r,
           LineTo width (height - r),
           CurveTo width (height - cp) (width - cp) height (width - r) height,
           LineTo r height, CurveTo cp height 0 (height - cp) 0 (height - r),
           LineTo 0 r, CurveTo 0 cp cp 0 r 0, ClosePath])"
    for width height radius s
    by (simp add: getSvgPath_commands_def Let_def)
  have bounds: "0 \<le> min radius (min (width / 2) (height / 2))"
      "min radius (min (width / 2) (height / 2)) \<le> radius"
      "min radius (min (width / 2) (height / 2))
         \<le> width - min radius (min (width / 2) (height / 2))"
      "min radius (min (width / 2) (height / 2))
         \<le> height - min radius (min (width / 2) (height / 2))"
    using assms by (auto simp: min_def)
  have concrete: "getSvgPath_commands 100 100 20 1 ps =
      [MoveTo 20 0, LineTo 80 0,
       CurveTo (100 - 20 * (1 - K)) 0 100 (20 * (1 - K)) 100 20,
       LineTo 100 80,
       CurveTo 100 (100 - 20 * (1 - K)) (100 - 20 * (1 - K)) 100 80 100,
       LineTo 20 100,
       CurveTo (20 * (1 - K)) 100 0 (100 - 20 * (1 - K)) 0 80,
       LineTo 0 20,
       CurveTo 0 (20 * (1 - K)) (20 * (1 - K)) 0 20 0,
       ClosePath]"
    by (simp add: general Let_def)
  have approx: "8954 / 1000 < 20 * (1 - K)" "20 * (1 - K) < 8955 / 1000"
    by (simp_all add: K_def)
  have nonzero: "20 * (1 - K) \<noteq> 0" "100 - 20 * (1 - K) \<noteq> 0"
    by (simp_all add: K_def)
  have path_text: "getSvgPath str ind 100 100 20 1 ps =
               (let sp = replicate ind CHR '' ''; cp = str (20 * (1 - K));
                    far = str (100 - 20 * (1 - K))
                in ''M '' @ str 20 @ '',0 '' @ nl @ sp
                   @ ''L '' @ str 80 @ '',0 '' @ nl @ sp
                   @ ''C '' @ far @ '',0 '' @ str 100 @ '','' @ cp
                     @ '' '' @ str 100 @ '','' @ str 20 @ nl @ sp
                   @ ''L '' @ str 100 @ '','' @ str 80 @ '' '' @ nl @ sp
                   @ ''C '' @ str 100 @ '','' @ far @ '' '' @ far @ '','' @ str 100 @ '' ''
                     @ str 80 @ '','' @ str 100 @ nl @ sp
                   @ ''L '' @ str 20 @ '','' @ str 100 @ '' '' @ nl @ sp
                   @ ''C '' @ cp @ '','' @ str 100 @ '' 0,'' @ far
                     @ '' 0,'' @ str 80 @ nl @ sp
                   @ ''L 0,'' @ str 20 @ '' '' @ nl @ sp
                   @ ''C 0,'' @ cp @ '' '' @ cp @ '',0 '' @ str 20 @ '',0 Z'')"
    using nonzero
    by (simp add: getSvgPath_def concrete Let_def num_def)
  show ?thesis
    using general [of width height radius s]
      getSvgPath_text [of str ind width height radius s ps] bounds concrete approx path_text
    unfolding Let_def by simp
qed

theorem getSvgPath_effective_radius_witness:
  "(0::real) < 100 \<and> (0::real) < 50 \<and> (0::real) \<le> 40
   \<and> getSvgPath_commands 100 50 40 (1 / 2) None =
     [MoveTo 25 0,
      LineTo 75 0,
      CurveTo (100 - 25 * (1 - 1 / 2 * K)) 0 100 (25 * (1 - 1 / 2 * K)) 100 25,
      LineTo 100 25,
      CurveTo 100 (50 - 25 * (1 - 1 / 2 * K)) (100 - 25 * (1 - 1 / 2 * K)) 50 75 50,
      LineTo 25 50,
      CurveTo (25 * (1 - 1 / 2 * K)) 50 0 (50 - 25 * (1 - 1 / 2 * K)) 0 25,
      LineTo 0 25,
      CurveTo 0 (25 * (1 - 1 / 2 * K)) (25 * (1 - 1 / 2 * K)) 0 25 0,
      ClosePath]
   \<and> getSvgPath (\<lambda>x. ''#'') 2 100 50 40 (1 / 2) None =
       ''M #,0 '' @ nl @ ''  ''
       @ ''L #,0 '' @ nl @ ''  ''
       @ ''C #,0 #,# #,#'' @ nl @ ''  ''
       @ ''L #,# '' @ nl @ ''  ''
       @ ''C #,# #,# #,#'' @ nl @ ''  ''
       @ ''L #,# '' @ nl @ ''  ''
       @ ''C #,# 0,# 0,#'' @ nl @ ''  ''
       @ ''L 0,# '' @ nl @ ''  ''
       @ ''C 0,# #,0 #,0 Z''"
  using getSvgPath_effective_radius [where width = 100 and height = 50 and radius = 40
      and s = "1 / 2" and ps = None and ind = 2 and str = "\<lambda>x. ''#''"]
  by (simp add: Let_def num_def K_def nl_def numeral_2_eq_2)

text \<open>
  C2. With smoothing 0 the corner is not the circular arc. For a box of 100 by 100 and
  radius 20 the control offset is 20, so every corner curve has both control points on its
  end points, \<open>C 80,0 100,20 100,20\<close> for the first one, which is the straight
  segment from (80,0) to (100,20). The circular-arc corner of radius 20 has its control
  points \<open>20 * K\<close>, between 11.045 and 11.046, away from the end points.
\<close>

theorem smoothing_zero_draws_chamfers:
  "getSvgPath_commands 100 100 20 0 ps =
     [MoveTo 20 0,
      LineTo 80 0,
      CurveTo 80 0 100 20 100 20,
      LineTo 100 80,
      CurveTo 100 80 80 100 80 100,
      LineTo 20 100,
      CurveTo 20 100 0 80 0 80,
      LineTo 0 20,
      CurveTo 0 20 20 0 20 0,
      ClosePath]
   \<and> getSvgPath str ind 100 100 20 0 ps =
       (let sp = replicate ind CHR '' ''
        in ''M '' @ str 20 @ '',0 '' @ nl @ sp
           @ ''L '' @ str 80 @ '',0 '' @ nl @ sp
           @ ''C '' @ str 80 @ '',0 '' @ str 100 @ '','' @ str 20
             @ '' '' @ str 100 @ '','' @ str 20 @ nl @ sp
           @ ''L '' @ str 100 @ '','' @ str 80 @ '' '' @ nl @ sp
           @ ''C '' @ str 100 @ '','' @ str 80 @ '' '' @ str 80 @ '','' @ str 100
             @ '' '' @ str 80 @ '','' @ str 100 @ nl @ sp
           @ ''L '' @ str 20 @ '','' @ str 100 @ '' '' @ nl @ sp
           @ ''C '' @ str 20 @ '','' @ str 100 @ '' 0,'' @ str 80
             @ '' 0,'' @ str 80 @ nl @ sp
           @ ''L 0,'' @ str 20 @ '' '' @ nl @ sp
           @ ''C 0,'' @ str 20 @ '' '' @ str 20 @ '',0 '' @ str 20 @ '',0 Z'')
   \<and> circular_outline 100 100 20 =
       [MoveTo 20 0,
        LineTo 80 0,
        CurveTo (80 + 20 * K) 0 100 (20 - 20 * K) 100 20,
        LineTo 100 80,
        CurveTo 100 (80 + 20 * K) (80 + 20 * K) 100 80 100,
        LineTo 20 100,
        CurveTo (20 - 20 * K) 100 0 (80 + 20 * K) 0 80,
        LineTo 0 20,
        CurveTo 0 (20 - 20 * K) (20 - 20 * K) 0 20 0,
        ClosePath]
   \<and> 11045 / 1000 < 20 * K \<and> 20 * K < 11046 / 1000
   \<and> getSvgPath_commands 100 100 20 0 ps \<noteq> circular_outline 100 100 20"
proof -
  have commands: "getSvgPath_commands 100 100 20 0 ps =
     [MoveTo 20 0, LineTo 80 0, CurveTo 80 0 100 20 100 20, LineTo 100 80,
      CurveTo 100 80 80 100 80 100, LineTo 20 100, CurveTo 20 100 0 80 0 80,
      LineTo 0 20, CurveTo 0 20 20 0 20 0, ClosePath]"
    by (simp add: getSvgPath_commands_def Let_def)
  have path_text: "getSvgPath str ind 100 100 20 0 ps =
       (let sp = replicate ind CHR '' ''
        in ''M '' @ str 20 @ '',0 '' @ nl @ sp
           @ ''L '' @ str 80 @ '',0 '' @ nl @ sp
           @ ''C '' @ str 80 @ '',0 '' @ str 100 @ '','' @ str 20
             @ '' '' @ str 100 @ '','' @ str 20 @ nl @ sp
           @ ''L '' @ str 100 @ '','' @ str 80 @ '' '' @ nl @ sp
           @ ''C '' @ str 100 @ '','' @ str 80 @ '' '' @ str 80 @ '','' @ str 100
             @ '' '' @ str 80 @ '','' @ str 100 @ nl @ sp
           @ ''L '' @ str 20 @ '','' @ str 100 @ '' '' @ nl @ sp
           @ ''C '' @ str 20 @ '','' @ str 100 @ '' 0,'' @ str 80
             @ '' 0,'' @ str 80 @ nl @ sp
           @ ''L 0,'' @ str 20 @ '' '' @ nl @ sp
           @ ''C 0,'' @ str 20 @ '' '' @ str 20 @ '',0 '' @ str 20 @ '',0 Z'')"
    by (simp add: getSvgPath_def commands Let_def num_def)
  have circular: "circular_outline 100 100 20 =
       [MoveTo 20 0, LineTo 80 0,
        CurveTo (80 + 20 * K) 0 100 (20 - 20 * K) 100 20,
        LineTo 100 80,
        CurveTo 100 (80 + 20 * K) (80 + 20 * K) 100 80 100,
        LineTo 20 100,
        CurveTo (20 - 20 * K) 100 0 (80 + 20 * K) 0 80,
        LineTo 0 20,
        CurveTo 0 (20 - 20 * K) (20 - 20 * K) 0 20 0,
        ClosePath]"
    by (simp add: circular_outline_def)
  have approx: "11045 / 1000 < 20 * K" "20 * K < 11046 / 1000"
    by (simp_all add: K_def)
  have differ: "getSvgPath_commands 100 100 20 0 ps \<noteq> circular_outline 100 100 20"
    using approx by (simp add: commands circular)
  show ?thesis
    using commands path_text circular approx differ by simp
qed

text \<open>
  The same for every box: with smoothing 0 the control points lie on the end points of each
  corner curve, which for a positive radius is not the circular outline; the control offset
  \<open>r * (1 - K)\<close> of the circular outline is what smoothing 1 gives.
\<close>

lemma getSvgPath_smoothing_extremes:
  assumes "0 < width" and "0 < height" and "0 \<le> radius"
  shows "(let r = min radius (min (width / 2) (height / 2))
          in getSvgPath_commands width height radius 1 ps = circular_outline width height r
             \<and> getSvgPath_commands width height radius 0 ps =
                 [MoveTo r 0,
                  LineTo (width - r) 0,
                  CurveTo (width - r) 0 width r width r,
                  LineTo width (height - r),
                  CurveTo width (height - r) (width - r) height (width - r) height,
                  LineTo r height,
                  CurveTo r height 0 (height - r) 0 (height - r),
                  LineTo 0 r,
                  CurveTo 0 r r 0 r 0,
                  ClosePath]
             \<and> (0 < radius \<longrightarrow>
                  getSvgPath_commands width height radius 0 ps
                    \<noteq> circular_outline width height r))"
proof -
  define r where "r = min radius (min (width / 2) (height / 2))"
  have one: "getSvgPath_commands width height radius 1 ps = circular_outline width height r"
    by (simp add: getSvgPath_commands_def circular_outline_def Let_def r_def algebra_simps)
  have zero: "getSvgPath_commands width height radius 0 ps =
                 [MoveTo r 0, LineTo (width - r) 0, CurveTo (width - r) 0 width r width r,
                  LineTo width (height - r),
                  CurveTo width (height - r) (width - r) height (width - r) height,
                  LineTo r height, CurveTo r height 0 (height - r) 0 (height - r),
                  LineTo 0 r, CurveTo 0 r r 0 r 0, ClosePath]"
    by (simp add: getSvgPath_commands_def Let_def r_def)
  have "0 < r" if "0 < radius"
    using that assms by (simp add: r_def)
  then have differ: "0 < radius \<longrightarrow>
      getSvgPath_commands width height radius 0 ps \<noteq> circular_outline width height r"
    by (auto simp: zero circular_outline_def K_def)
  show ?thesis
    using one zero differ by (simp add: Let_def r_def [symmetric])
qed

text \<open>
  C7. The outline depends on width, height, radius and smoothing only: two calls that agree
  on these give the same commands and the same text, whatever \<open>preserveSmoothing\<close> is.
\<close>

theorem getSvgPath_pure:
  "getSvgPath_commands width height radius smoothing ps =
     getSvgPath_commands width height radius smoothing ps'
   \<and> getSvgPath str ind width height radius smoothing ps =
       getSvgPath str ind width height radius smoothing ps'"
  by (simp add: getSvgPath_def getSvgPath_commands_def Let_def)

section \<open>Properties of the renderer\<close>

subsection \<open>Style elements\<close>

lemma find_set_textContent:
  "find (\<lambda>s. style_id s = i) (map (\<lambda>s. if node s = n then s\<lparr>textContent := t\<rparr> else s) xs) =
     map_option (\<lambda>s. if node s = n then s\<lparr>textContent := t\<rparr> else s)
       (find (\<lambda>s. style_id s = i) xs)"
  by (induction xs) auto

lemma find_append_None:
  "find P xs = None \<Longrightarrow> find P (xs @ ys) = find P ys"
  by (induction xs) (auto split: if_splits)

lemma head_classList_add [simp]: "head (classList_add st e c) = head st"
  by (simp add: classList_add_def)

lemma next_node_classList_add [simp]: "next_node (classList_add st e c) = next_node st"
  by (simp add: classList_add_def)

lemma head_ensure_positioned [simp]: "head (ensure_positioned st e) = head st"
  by (simp add: ensure_positioned_def)

lemma getElementById_ensure_positioned [simp]:
  "getElementById (ensure_positioned st e) i = getElementById st i"
  by (simp add: getElementById_def)

lemma style_text_at_ensure_positioned [simp]:
  "style_text_at (ensure_positioned st e) i = style_text_at st i"
  by (simp add: style_text_at_def)

lemma upsert_text:
  "style_text_at
        (set_textContent
           (fst (case getElementById s3 i of None \<Rightarrow> appendStyle s3 i | Some s \<Rightarrow> (s3, node s)))
           (snd (case getElementById s3 i of None \<Rightarrow> appendStyle s3 i | Some s \<Rightarrow> (s3, node s)))
           t) i = Some t"
proof (cases "getElementById s3 i")
  case None
  then have "find (\<lambda>s. style_id s = i) (head s3) = None"
    by (simp add: getElementById_def)
  then show ?thesis
    using None
    by (simp add: appendStyle_def set_textContent_def getElementById_def find_set_textContent
        find_append_None style_text_at_def)
next
  case (Some s)
  then show ?thesis
    by (simp add: set_textContent_def getElementById_def find_set_textContent style_text_at_def)
qed

lemma border_rule_text:
  "style_text_at (renderSquircle_border str ind st element opts width height bw)
        (style_key (squircle_class (squircleCounter st + 1))) =
   Some (BeforeRule (squircle_class (squircleCounter st + 1)) bw bw
           (max 0 (width - bw * 2)) (max 0 (height - bw * 2))
           (getSvgPath str ind (max 0 (width - bw * 2)) (max 0 (height - bw * 2))
              (max 0 (cornerRadius opts - bw)) (cornerSmoothing opts) (preserveSmoothing opts)))"
  by (simp add: renderSquircle_border_def Let_def split_def upsert_text cong: option.case_cong)

lemma nat_str_small [simp]:
  "nat_str (Suc 0) = ''1''" "nat_str 1 = ''1''" "nat_str (Suc (Suc 0)) = ''2''" "nat_str 2 = ''2''"
  by code_simp+

subsection \<open>Inner outline of border mode\<close>

text \<open>
  C6. A border-mode render (path clipping supported, a box of positive width and height,
  \<open>borderWidth > 0\<close>) writes the style rule of the class it has just allocated with
  offsets \<open>borderWidth\<close>, inner width \<open>max(0, width - 2*borderWidth)\<close>, inner height
  \<open>max(0, height - 2*borderWidth)\<close> and the outline of that inner box with radius
  \<open>max(0, cornerRadius - borderWidth)\<close>. For radius 10 and border 4 on a box of 100 by
  50 the inner box is 92 by 42 and the inner radius 6.
\<close>

theorem border_inner_dimensions:
  assumes "supports_empty_path st"
    and "boundingRect st element = (width, height)"
    and "0 < width" and "0 < height"
    and "borderWidth opts = Some bw" and "0 < bw"
  shows "style_text_at (renderSquircle str ind st element opts)
        (style_key (squircle_class (squircleCounter st + 1))) =
   Some (BeforeRule (squircle_class (squircleCounter st + 1)) bw bw
           (max 0 (width - 2 * bw)) (max 0 (height - 2 * bw))
           (getSvgPath str ind (max 0 (width - 2 * bw)) (max 0 (height - 2 * bw))
              (max 0 (cornerRadius opts - bw)) (cornerSmoothing opts) (preserveSmoothing opts)))"
proof -
  have "renderSquircle str ind st element opts =
          renderSquircle_border str ind st element opts width height bw"
    using assms by (simp add: renderSquircle_def border_mode_def)
  then show ?thesis
    using border_rule_text [of str ind st element opts width height bw]
    by (simp add: mult.commute)
qed

theorem border_inner_dimensions_witness:
  "style_text_at
        (renderSquircle (\<lambda>x. []) 10 (page_with_box 100 50) 0
           \<lparr>cornerRadius = 10, cornerSmoothing = 1, preserveSmoothing = None,
            borderWidth = Some 4\<rparr>)
        ''squircle-style-squircle-1'' =
   Some (BeforeRule ''squircle-1'' 4 4 92 42 (getSvgPath (\<lambda>x. []) 10 92 42 6 1 None))"
  using border_inner_dimensions [of "page_with_box 100 50" 0 100 50
      "\<lparr>cornerRadius = 10, cornerSmoothing = 1, preserveSmoothing = None, borderWidth = Some 4\<rparr>"
      4 "\<lambda>x. []" 10]
  by (simp add: page_with_box_def sample_page_def squircle_class_def style_key_def)

subsection \<open>Unmeasurable boxes\<close>

text \<open>
  C5. When the measured width or height of the element is zero or negative, a render
  returns the state it was given: clip path, classes, style elements and the module's maps
  and counter are untouched. (Where the platform lacks path clipping the render has already
  returned, after one console warning and nothing else.) This holds for the original build,
  which measures the bounding rectangle, and for the fixed build, which measures the client
  box.
\<close>

theorem render_unmeasurable_noop:
  "(fst (boundingRect st element) \<le> 0 \<or> snd (boundingRect st element) \<le> 0 \<longrightarrow>
      renderSquircle str ind st element opts =
        (if supports_empty_path st then st
         else st\<lparr>console := console st @
                [''clip-path with path() not supported, falling back to border-radius'']\<rparr>))
   \<and> (fst (clientSize st element) \<le> 0 \<or> snd (clientSize st element) \<le> 0 \<longrightarrow>
      renderSquircle_fixed str ind st element opts =
        (if supportsClipPathPath st then st
         else st\<lparr>console := console st @
                [''clip-path: path() unsupported. Falling back to border-radius.'']\<rparr>))"
  by (auto simp: renderSquircle_def renderSquircle_fixed_def Let_def split: prod.splits)

theorem render_unmeasurable_noop_witness:
  "renderSquircle (\<lambda>x. []) 10 (page_with_box 0 50) 0
     \<lparr>cornerRadius = 10, cornerSmoothing = 1, preserveSmoothing = None, borderWidth = Some 4\<rparr>
     = page_with_box 0 50
   \<and> renderSquircle_fixed (\<lambda>x. []) 10 (page_with_box 0 50) 0
     \<lparr>cornerRadius = 10, cornerSmoothing = 1, preserveSmoothing = None, borderWidth = Some 4\<rparr>
     = page_with_box 0 50"
  using render_unmeasurable_noop [of "page_with_box 0 50" 0 "\<lambda>x. []" 10
      "\<lparr>cornerRadius = 10, cornerSmoothing = 1, preserveSmoothing = None, borderWidth = Some 4\<rparr>"]
  by (simp add: page_with_box_def sample_page_def)

section \<open>Properties of the init helper\<close>

text \<open>
  C9 at a concrete input. For an element whose attribute \<open>data-corner-smoothing\<close> is
  \<open>0\<close>, a value inside [0,1], \<open>initializeElement\<close> records the smoothing 1:
  \<open>parseFloat\<close> gives 0, which \<open>|| 1\<close> replaces by 1.
\<close>

theorem smoothing_attribute_zero:
  "map_option (\<lambda>(observer, opts). cornerSmoothing opts)
     (elementObservers (initializeElement str (page_with_attributes (Some ''0'') None) 0) 0)
   = Some 1"
  by (simp add: initializeElement_def initializeElement_options_def
      initializeElement_styles_def page_with_attributes_def page_with_box_def sample_page_def
      parseFloat_def read_sign_def isWhiteSpace_def isDigit_def digits_value_def
      read_exponent_def scale10_def or_default_def Let_def squircleObserver_def
      renderSquircle_def border_mode_def getBorderInfo_def getBackgroundInfo_def unstyled_def
      set_clipPath_def split: prod.splits)

text \<open>
  C10 at a concrete input. On the colour \<open>rgba(255, 0, 0, 0)\<close>, whose alpha is 0,
  \<open>isTransparentColor\<close> of \<open>init.iife.js\<close> answers false and the one of
  \<open>src/unnamed/part_000\<close> answers true.
\<close>

theorem isTransparentColor_builds_differ:
  "isTransparentColor ''rgba(255, 0, 0, 0)'' = False
   \<and> isTransparentColor_part_000 ''rgba(255, 0, 0, 0)'' = True"
  by code_simp

subsection \<open>What the init helper derives in general\<close>

text \<open>
  A tracked element is skipped. For an untracked element with a non-empty smoothing
  attribute the helper records the options it derives; their smoothing is the attribute's
  number clamped into [0,1], with 1 in place of \<open>NaN\<close> and of 0, so it equals the
  attribute's number exactly when that lies in [0,1] and is not 0.
\<close>

lemma throws_border [simp]:
  "resizeObserverThrows (renderSquircle_border str ind st e opts w h bw) = resizeObserverThrows st"
  by (simp add: renderSquircle_border_def Let_def split_def set_clipPath_def
      ensure_positioned_def set_textContent_def appendStyle_def classList_add_def
      split: option.splits)

lemma throws_render [simp]:
  "resizeObserverThrows (renderSquircle str ind st e opts) = resizeObserverThrows st"
  by (simp add: renderSquircle_def Let_def set_clipPath_def split: prod.splits)

lemma throws_styles [simp]:
  "resizeObserverThrows (initializeElement_styles st e) = resizeObserverThrows st"
  by (simp add: initializeElement_styles_def Let_def)

lemma initializeElement_tracked:
  "elementObservers st e \<noteq> None \<Longrightarrow> initializeElement str st e = st"
  by (simp add: initializeElement_def)

lemma initializeElement_records:
  assumes "elementObservers st e = None"
    and "attributes st e ''data-corner-smoothing'' = Some a" and "a \<noteq> []"
    and "\<not> resizeObserverThrows st"
  shows "\<exists>observer. elementObservers (initializeElement str st e) e =
           Some (observer, initializeElement_options st e a)"
  using assms
  by (simp add: initializeElement_def Let_def split_def squircleObserver_def)

lemma derived_smoothing:
  "cornerSmoothing (initializeElement_options st e a) =
     max 0 (min 1 (or_default (parseFloat a) 1))"
  by (simp add: initializeElement_options_def Let_def)

lemma derived_smoothing_nonzero:
  assumes "parseFloat a = Some v" and "v \<noteq> 0" and "0 \<le> v" and "v \<le> 1"
  shows "cornerSmoothing (initializeElement_options st e a) = v"
  using assms by (simp add: derived_smoothing or_default_def)

lemma derived_smoothing_zero:
  assumes "parseFloat a = Some 0"
  shows "cornerSmoothing (initializeElement_options st e a) = 1"
  using assms by (simp add: derived_smoothing or_default_def)

lemma derived_smoothing_range:
  "0 \<le> cornerSmoothing (initializeElement_options st e a)
   \<and> cornerSmoothing (initializeElement_options st e a) \<le> 1"
  by (simp add: derived_smoothing)

text \<open>
  On sample attribute values: a half stays a half, 7 is clamped to 1 and -1 to 0, a text
  that is no number gives the default 1, and so does 0.
\<close>

lemma smoothing_attribute_examples:
  "cornerSmoothing (initializeElement_options st e ''0.5'') = 1 / 2"
  "cornerSmoothing (initializeElement_options st e ''1'') = 1"
  "cornerSmoothing (initializeElement_options st e ''7'') = 1"
  "cornerSmoothing (initializeElement_options st e ''-1'') = 0"
  "cornerSmoothing (initializeElement_options st e ''0'') = 1"
  "cornerSmoothing (initializeElement_options st e ''smooth'') = 1"
  by (simp_all add: initializeElement_options_def Let_def parseFloat_def read_sign_def
      isWhiteSpace_def isDigit_def digits_value_def read_exponent_def scale10_def
      or_default_def)

text \<open>
  The pattern of \<open>init.iife.js\<close> needs a backslash in the colour: on a colour without
  one, \<open>isTransparentColor\<close> is true for the three literal cases only.
\<close>

lemma rx_run_backslash_first:
  "CHR 0x5C \<notin> set s \<Longrightarrow> rx_run False (Ch (CHR 0x5C) # items) s consumed starts caps = None"
  by (cases s) (auto simp: same_char_def)

lemma rx_run_needs_backslash:
  assumes "CHR 0x5C \<notin> set s"
  shows "rx_run False rgba_pattern s consumed starts caps = None"
proof -
  have tl: "CHR 0x5C \<notin> set t" if "s = x # t" for x t
    using assms that by simp
  have opt: "rx_run False (OptCh CHR ''a'' # Ch (CHR 0x5C) # items) t c st cp = None"
    if "CHR 0x5C \<notin> set t" for t items c st cp
    using that by (cases t) (simp_all add: rx_run_backslash_first del: rx_run.simps(2))
  show ?thesis
  proof (cases s)
    case Nil
    then show ?thesis by (simp add: rgba_pattern_def)
  next
    case s1: (Cons x1 t1)
    show ?thesis
    proof (cases t1)
      case Nil
      then show ?thesis using s1 by (simp add: rgba_pattern_def)
    next
      case s2: (Cons x2 t2)
      show ?thesis
      proof (cases t2)
        case Nil
        then show ?thesis using s1 s2 by (simp add: rgba_pattern_def)
      next
        case s3: (Cons x3 t3)
        have "CHR 0x5C \<notin> set t3"
          using assms s1 s2 s3 by simp
        then show ?thesis
          using s1 s2 s3 by (simp add: rgba_pattern_def opt del: rx_run.simps(3))
      qed
    qed
  qed
qed

lemma rx_search_needs_backslash:
  "CHR 0x5C \<notin> set s \<Longrightarrow> rx_search False rgba_pattern s = None"
  by (induction s) (simp_all add: rx_run_needs_backslash)

lemma isTransparentColor_without_backslash:
  assumes "CHR 0x5C \<notin> set color"
  shows "isTransparentColor color \<longleftrightarrow>
           color = [] \<or> color = ''transparent'' \<or> color = ''rgba(0, 0, 0, 0)''"
  using assms rx_search_needs_backslash [of color]
  by (simp add: isTransparentColor_def)

section \<open>Properties of disconnect\<close>

subsection \<open>Bookkeeping of style elements along a run\<close>

lemma ids_set_textContent [simp]:
  "map style_id (head (set_textContent st n t)) = map style_id (head st)"
  by (simp add: set_textContent_def comp_def)

lemma classList_set_textContent [simp]:
  "classList (set_textContent st n t) = classList st"
  by (simp add: set_textContent_def)

lemma classList_ensure_positioned [simp]:
  "classList (ensure_positioned st e) = classList st"
  by (simp add: ensure_positioned_def)

lemma head_set_clipPath [simp]: "head (set_clipPath st e v) = head st"
  by (simp add: set_clipPath_def)

lemma classList_set_clipPath [simp]: "classList (set_clipPath st e v) = classList st"
  by (simp add: set_clipPath_def)

lemma classList_appendStyle [simp]: "classList (fst (appendStyle st i)) = classList st"
  by (simp add: appendStyle_def)

lemma getElementById_None_iff:
  "getElementById st i = None \<longleftrightarrow> i \<notin> set (map style_id (head st))"
  by (auto simp: getElementById_def find_None_iff)

lemma startsWith_squircle_class [simp]: "startsWith (squircle_class n) ''squircle-''"
  by (simp add: startsWith_def squircle_class_def)

lemma border_ids:
  "map style_id (head (renderSquircle_border str ind st element opts width height bw)) =
     (if style_key (squircle_class (squircleCounter st + 1)) \<in> set (map style_id (head st))
      then map style_id (head st)
      else map style_id (head st) @ [style_key (squircle_class (squircleCounter st + 1))])"
proof -
  define st3 where "st3 = set_clipPath
      (classList_add (st\<lparr>squircleCounter := squircleCounter st + 1\<rparr>) element
         (squircle_class (squircleCounter st + 1)))
      element (path_value (getSvgPath str ind width height
         (cornerRadius opts) (cornerSmoothing opts) (preserveSmoothing opts)))"
  define i where "i = style_key (squircle_class (squircleCounter st + 1))"
  have h3: "head st3 = head st"
    by (simp add: st3_def)
  have r: "renderSquircle_border str ind st element opts width height bw =
      ensure_positioned
        (set_textContent
           (fst (case getElementById st3 i of None \<Rightarrow> appendStyle st3 i | Some s \<Rightarrow> (st3, node s)))
           (snd (case getElementById st3 i of None \<Rightarrow> appendStyle st3 i | Some s \<Rightarrow> (st3, node s)))
           (BeforeRule (squircle_class (squircleCounter st + 1)) bw bw
              (max 0 (width - bw * 2)) (max 0 (height - bw * 2))
              (getSvgPath str ind (max 0 (width - bw * 2)) (max 0 (height - bw * 2))
                (max 0 (cornerRadius opts - bw)) (cornerSmoothing opts) (preserveSmoothing opts))))
        element"
    by (simp add: renderSquircle_border_def Let_def split_def st3_def i_def
        cong: option.case_cong)
  show ?thesis
  proof (cases "getElementById st3 i")
    case None
    then have "i \<notin> set (map style_id (head st))"
      by (simp add: getElementById_None_iff h3)
    then show ?thesis
      using None by (simp add: r appendStyle_def h3 i_def)
  next
    case (Some s)
    then have "i \<in> set (map style_id (head st))"
      using getElementById_None_iff [of st3 i] by (simp add: h3)
    then show ?thesis
      using Some by (simp add: r h3 i_def)
  qed
qed

lemma border_classList:
  "classList (renderSquircle_border str ind st element opts width height bw) e =
     (if e = element \<and> squircle_class (squircleCounter st + 1) \<notin> set (classList st element)
      then classList st element @ [squircle_class (squircleCounter st + 1)]
      else classList st e)"
  by (simp add: renderSquircle_border_def Let_def split_def classList_add_def
      cong: option.case_cong split: option.splits)

lemma styles_owned_border:
  assumes "styles_owned st"
  shows "styles_owned (renderSquircle_border str ind st element opts width height bw)"
proof -
  let ?st' = "renderSquircle_border str ind st element opts width height bw"
  let ?c = "squircle_class (squircleCounter st + 1)"
  have keep: "c \<in> set (classList ?st' e)" if "c \<in> set (classList st e)" for c e
    using that by (auto simp: border_classList)
  have new: "?c \<in> set (classList ?st' element)"
    by (simp add: border_classList)
  have ids: "set (map style_id (head ?st')) \<subseteq> insert (style_key ?c) (set (map style_id (head st)))"
    by (auto simp: border_ids)
  have dist: "distinct (map style_id (head ?st'))"
    using assms unfolding border_ids styles_owned_def by auto
  have own: "\<exists>e c. c \<in> set (classList ?st' e) \<and> startsWith c ''squircle-'' \<and> i = style_key c"
    if "i \<in> set (map style_id (head ?st'))" for i
  proof (cases "i = style_key ?c")
    case True
    then show ?thesis
      using new startsWith_squircle_class by blast
  next
    case False
    then have "i \<in> set (map style_id (head st))"
      using that ids by blast
    then obtain e c where "c \<in> set (classList st e)" "startsWith c ''squircle-''"
        "i = style_key c"
      using assms unfolding styles_owned_def by blast
    then show ?thesis
      using keep by blast
  qed
  show ?thesis
    unfolding styles_owned_def using dist own by blast
qed

lemma styles_owned_updates [simp]:
  "styles_owned (st\<lparr>elementObservers := m\<rparr>) = styles_owned st"
  "styles_owned (st\<lparr>console := l\<rparr>) = styles_owned st"
  "styles_owned (st\<lparr>style_background := b\<rparr>) = styles_owned st"
  "styles_owned (st\<lparr>inner_bg := g\<rparr>) = styles_owned st"
  "styles_owned (st\<lparr>observing := os\<rparr>) = styles_owned st"
  "styles_owned (st\<lparr>next_node := nn\<rparr>) = styles_owned st"
  "styles_owned (st\<lparr>boundingRect := r\<rparr>) = styles_owned st"
  "styles_owned (st\<lparr>computed := cs\<rparr>) = styles_owned st"
  "styles_owned (st\<lparr>attributes := a\<rparr>) = styles_owned st"
  "styles_owned (st\<lparr>clipPath := p\<rparr>) = styles_owned st"
  by (simp_all add: styles_owned_def)

lemma styles_owned_render:
  assumes "styles_owned st"
  shows "styles_owned (renderSquircle str ind st element opts)"
  using assms styles_owned_border [OF assms]
  by (simp add: renderSquircle_def Let_def set_clipPath_def split: prod.splits)

lemma styles_owned_callback:
  "styles_owned st \<Longrightarrow> styles_owned (resize_callback str ind element opts entries st)"
  unfolding resize_callback_def
  by (induction entries arbitrary: st) (simp_all add: styles_owned_render)

lemma styles_owned_deliver:
  "styles_owned st \<Longrightarrow> styles_owned (deliver str st observer entries)"
  by (simp add: deliver_def styles_owned_callback split: option.splits prod.splits)

lemma styles_owned_observer:
  assumes "styles_owned st"
  shows "styles_owned (fst (squircleObserver str ind st element opts))"
proof -
  have "styles_owned (renderSquircle str ind st element opts)"
    using assms by (rule styles_owned_render)
  then show ?thesis
    by (simp add: squircleObserver_def Let_def)
qed

lemma styles_owned_initializeElement:
  assumes "styles_owned st"
  shows "styles_owned (initializeElement str st element)"
proof -
  have obs: "styles_owned (fst (squircleObserver str 12 s element o1))"
    if "styles_owned s" for s o1
    using that by (rule styles_owned_observer)
  have fin: "styles_owned (fst R) \<Longrightarrow>
      styles_owned (case snd R of
         None \<Rightarrow> (fst R)\<lparr>console := l\<rparr>
       | Some observer \<Rightarrow> (fst R)\<lparr>elementObservers := m observer\<rparr>)"
    for R :: "state \<times> nat option" and l m
    by (cases "snd R") simp_all
  have styled: "styles_owned (initializeElement_styles st element)"
    using assms by (simp add: initializeElement_styles_def Let_def)
  show ?thesis
    unfolding initializeElement_def Let_def split_def
    using assms
    by (simp add: fin obs styled del: fun_upd_apply split: option.splits)
qed

lemma styles_owned_scan:
  "styles_owned st \<Longrightarrow> styles_owned (scan str st elements)"
proof -
  have "styles_owned s \<Longrightarrow>
      styles_owned (fold (\<lambda>element s. if isHTMLElement s element
                                       then initializeElement str s element else s) es s)"
    for es s
    by (induction es arbitrary: s) (simp_all add: styles_owned_initializeElement)
  then show "styles_owned st \<Longrightarrow> styles_owned (scan str st elements)"
    by (simp add: scan_def)
qed

subsection \<open>The loop over the classes\<close>

lemma rsc_head:
  "\<exists>P. head (remove_squircle_class e c s) = filter P (head s)"
proof (cases "startsWith c ''squircle-''")
  case False
  then have "head (remove_squircle_class e c s) = filter (\<lambda>x. True) (head s)"
    by (simp add: remove_squircle_class_def)
  then show ?thesis by (rule exI [where x = "\<lambda>x. True"])
next
  case True
  show ?thesis
  proof (cases "getElementById (classList_remove s e c) (style_key c)")
    case None
    then have "head (remove_squircle_class e c s) = filter (\<lambda>x. True) (head s)"
      using True by (simp add: remove_squircle_class_def Let_def classList_remove_def)
    then show ?thesis by (rule exI [where x = "\<lambda>x. True"])
  next
    case (Some x)
    then have "head (remove_squircle_class e c s) = filter (\<lambda>y. node y \<noteq> node x) (head s)"
      using True
      by (simp add: remove_squircle_class_def Let_def classList_remove_def remove_node_def)
    then show ?thesis by (rule exI [where x = "\<lambda>y. node y \<noteq> node x"])
  qed
qed

lemma rsc_absent:
  assumes "distinct (map style_id (head s))" and "startsWith c ''squircle-''"
  shows "style_key c \<notin> set (map style_id (head (remove_squircle_class e c s)))"
proof (cases "find (\<lambda>x. style_id x = style_key c) (head s)")
  case None
  then have "style_key c \<notin> set (map style_id (head s))"
    by (auto simp: find_None_iff)
  then show ?thesis
    using assms(2) None
    by (simp add: remove_squircle_class_def Let_def classList_remove_def getElementById_def)
next
  case (Some x)
  then have x: "x \<in> set (head s)" "style_id x = style_key c"
    by (auto simp: find_Some_iff)
  have only: "y = x" if "y \<in> set (head s)" "style_id y = style_key c" for y
    using assms(1) x that by (metis distinct_map inj_on_def)
  have "head (remove_squircle_class e c s) = filter (\<lambda>y. node y \<noteq> node x) (head s)"
    using assms(2) Some
    by (simp add: remove_squircle_class_def Let_def classList_remove_def getElementById_def
        remove_node_def)
  then show ?thesis
    using only by auto
qed

lemma rsc_classList:
  "classList (remove_squircle_class e c s) e' =
     (if e' = e \<and> startsWith c ''squircle-'' then filter (\<lambda>d. d \<noteq> c) (classList s e)
      else classList s e')"
  by (simp add: remove_squircle_class_def Let_def classList_remove_def remove_node_def
      split: option.splits)

lemma rsc_fields [simp]:
  "elementObservers (remove_squircle_class e c s) = elementObservers s"
  "observing (remove_squircle_class e c s) = observing s"
  "clipPath (remove_squircle_class e c s) = clipPath s"
  "inner_bg (remove_squircle_class e c s) = inner_bg s"
  by (simp_all add: remove_squircle_class_def Let_def classList_remove_def remove_node_def
      split: option.splits)

lemma fold_rsc_fields [simp]:
  "elementObservers (fold (remove_squircle_class e) cs s) = elementObservers s"
  "observing (fold (remove_squircle_class e) cs s) = observing s"
  "clipPath (fold (remove_squircle_class e) cs s) = clipPath s"
  "inner_bg (fold (remove_squircle_class e) cs s) = inner_bg s"
  by (induction cs arbitrary: s) simp_all

lemma fold_rsc_head:
  "\<exists>P. head (fold (remove_squircle_class e) cs s) = filter P (head s)"
proof (induction cs arbitrary: s)
  case Nil
  have "head s = filter (\<lambda>x. True) (head s)"
    by simp
  then show ?case
    unfolding fold_simps by (rule exI [where x = "\<lambda>x. True"])
next
  case (Cons c cs)
  obtain P where P: "head (remove_squircle_class e c s) = filter P (head s)"
    using rsc_head by blast
  obtain Q where "head (fold (remove_squircle_class e) cs (remove_squircle_class e c s)) =
      filter Q (head (remove_squircle_class e c s))"
    using Cons.IH by blast
  then have "head (fold (remove_squircle_class e) (c # cs) s) =
      filter (\<lambda>x. P x \<and> Q x) (head s)"
    by (simp add: P conj_commute)
  then show ?case by (rule exI [where x = "\<lambda>x. P x \<and> Q x"])
qed

lemma fold_rsc_classList:
  "classList (fold (remove_squircle_class e) cs s) e' =
     (if e' = e then filter (\<lambda>d. \<not> (d \<in> set cs \<and> startsWith d ''squircle-'')) (classList s e)
      else classList s e')"
proof (induction cs arbitrary: s)
  case Nil
  then show ?case by simp
next
  case (Cons c cs)
  show ?case
    by (auto simp: Cons.IH rsc_classList intro!: filter_cong)
qed

lemma fold_rsc_absent:
  assumes "distinct (map style_id (head s))"
    and "c \<in> set cs" and "startsWith c ''squircle-''"
  shows "style_key c \<notin> set (map style_id (head (fold (remove_squircle_class e) cs s)))"
  using assms
proof (induction cs arbitrary: s)
  case Nil
  then show ?case by simp
next
  case (Cons d cs)
  obtain P where P: "head (remove_squircle_class e d s) = filter P (head s)"
    using rsc_head by blast
  then have dist: "distinct (map style_id (head (remove_squircle_class e d s)))"
    using Cons.prems(1) by (simp add: distinct_map_filter)
  show ?case
  proof (cases "c \<in> set cs")
    case True
    then show ?thesis
      using Cons.IH [OF dist True Cons.prems(3)] by simp
  next
    case False
    then have "c = d"
      using Cons.prems(2) by simp
    then have gone: "style_key c \<notin> set (map style_id (head (remove_squircle_class e d s)))"
      using rsc_absent [OF Cons.prems(1) Cons.prems(3)] by simp
    obtain Q where "head (fold (remove_squircle_class e) cs (remove_squircle_class e d s)) =
        filter Q (head (remove_squircle_class e d s))"
      using fold_rsc_head by blast
    then show ?thesis
      using gone by auto
  qed
qed

lemma disconnect_tracked:
  assumes "elementObservers st element = Some (observer, opts)"
  shows "disconnect st element =
     fold (remove_squircle_class element) (classList st element)
       (st\<lparr>observing := filter (\<lambda>(h, e, opts). h \<noteq> observer) (observing st),
           elementObservers := (elementObservers st)(element := None),
           clipPath := (clipPath st)(element := []),
           inner_bg := (inner_bg st)(element := None)\<rparr>)"
  using assms
  by (simp add: disconnect_def Let_def observer_disconnect_def set_clipPath_def)

lemma disconnect_owned:
  assumes "styles_owned st"
  shows "distinct (map style_id (head (disconnect st element)))"
    and "i \<in> set (map style_id (head (disconnect st element))) \<Longrightarrow>
         elementObservers st element \<noteq> None \<Longrightarrow>
         \<exists>e c. e \<noteq> element \<and> c \<in> set (classList (disconnect st element) e)
               \<and> startsWith c ''squircle-'' \<and> i = style_key c"
    and "styles_owned (disconnect st element)"
proof -
  have dist: "distinct (map style_id (head st))"
    using assms by (simp add: styles_owned_def)
  show d: "distinct (map style_id (head (disconnect st element)))"
  proof (cases "elementObservers st element")
    case None
    then show ?thesis
      using dist by (simp add: disconnect_def)
  next
    case (Some a)
    obtain observer opts where a: "a = (observer, opts)"
      by (cases a)
    have t: "elementObservers st element = Some (observer, opts)"
      using Some a by simp
    obtain P where "head (disconnect st element) = filter P (head st)"
      using fold_rsc_head [of element "classList st element"
          "st\<lparr>observing := filter (\<lambda>(h, e, opts). h \<noteq> observer) (observing st),
              elementObservers := (elementObservers st)(element := None),
              clipPath := (clipPath st)(element := []),
              inner_bg := (inner_bg st)(element := None)\<rparr>"]
      by (auto simp: disconnect_tracked [OF t])
    then show ?thesis
      using dist by (simp add: distinct_map_filter)
  qed
  have own: "\<exists>e c. e \<noteq> element \<and> c \<in> set (classList (disconnect st element) e)
               \<and> startsWith c ''squircle-'' \<and> i = style_key c"
    if i: "i \<in> set (map style_id (head (disconnect st element)))"
      and tracked: "elementObservers st element \<noteq> None" for i
  proof -
    obtain observer opts where t: "elementObservers st element = Some (observer, opts)"
      using tracked by auto
    let ?s4 = "st\<lparr>observing := filter (\<lambda>(h, e, opts). h \<noteq> observer) (observing st),
           elementObservers := (elementObservers st)(element := None),
           clipPath := (clipPath st)(element := []),
           inner_bg := (inner_bg st)(element := None)\<rparr>"
    have eq: "disconnect st element =
        fold (remove_squircle_class element) (classList st element) ?s4"
      using t by (rule disconnect_tracked)
    obtain P where P: "head (disconnect st element) = filter P (head st)"
      using fold_rsc_head [of element "classList st element" ?s4] by (auto simp: eq)
    then have "i \<in> set (map style_id (head st))"
      using i by auto
    then obtain e c where ec: "c \<in> set (classList st e)" "startsWith c ''squircle-''"
        "i = style_key c"
      using assms unfolding styles_owned_def by blast
    have "e \<noteq> element"
    proof
      assume "e = element"
      then have "c \<in> set (classList st element)"
        using ec(1) by simp
      moreover have "distinct (map style_id (head ?s4))"
        using dist by simp
      ultimately have "style_key c \<notin> set (map style_id (head (disconnect st element)))"
        unfolding eq using ec(2) by (intro fold_rsc_absent)
      then show False
        using i ec(3) by simp
    qed
    moreover from this have "classList (disconnect st element) e = classList st e"
      by (simp add: eq fold_rsc_classList)
    ultimately show ?thesis
      using ec by metis
  qed
  then show "i \<in> set (map style_id (head (disconnect st element))) \<Longrightarrow>
         elementObservers st element \<noteq> None \<Longrightarrow>
         \<exists>e c. e \<noteq> element \<and> c \<in> set (classList (disconnect st element) e)
               \<and> startsWith c ''squircle-'' \<and> i = style_key c"
    by blast
  show "styles_owned (disconnect st element)"
  proof (cases "elementObservers st element")
    case None
    then show ?thesis
      using assms by (simp add: disconnect_def)
  next
    case (Some a)
    then show ?thesis
      unfolding styles_owned_def using d own by blast
  qed
qed

lemma styles_owned_step:
  "styles_owned st \<Longrightarrow> styles_owned (step str ev st)"
  by (cases ev) (simp_all add: styles_owned_scan disconnect_owned(3) styles_owned_deliver)

lemma styles_owned_run:
  "styles_owned st \<Longrightarrow> styles_owned (run str evs st)"
  by (induction evs arbitrary: st) (simp_all add: styles_owned_step)

lemma styles_owned_start:
  "head st = [] \<Longrightarrow> styles_owned st"
  by (simp add: styles_owned_def)

subsection \<open>Disconnect after any run\<close>

text \<open>
  C8. Take a page whose document head holds no style element and let the init helper run
  through any events (scans, disconnects, resize notifications, changes of layout, styles
  and attributes). Then \<open>disconnect\<close> of an untracked element changes nothing, and
  \<open>disconnect\<close> of a tracked element forgets it in \<open>elementObservers\<close>, stops its
  observer, empties the clip path, removes the inner-background property, removes every
  class that starts with \<open>squircle-\<close> together with the style element keyed by it,
  and leaves in the document head only style elements keyed by classes of other elements.
\<close>

theorem disconnect_cleans_up:
  assumes "head st0 = []"
  shows "(let st = run str evs st0; st' = disconnect st element
          in (elementObservers st element = None \<longrightarrow> st' = st)
           \<and> (\<forall>observer opts. elementObservers st element = Some (observer, opts) \<longrightarrow>
                 elementObservers st' element = None
               \<and> (\<forall>e p. (observer, e, p) \<notin> set (observing st'))
               \<and> clipPath st' element = []
               \<and> inner_bg st' element = None
               \<and> classList st' element =
                   filter (\<lambda>c. \<not> startsWith c ''squircle-'') (classList st element)
               \<and> (\<forall>c \<in> set (classList st element).
                     startsWith c ''squircle-'' \<longrightarrow> getElementById st' (style_key c) = None)
               \<and> (\<forall>s \<in> set (head st').
                     \<exists>e c. e \<noteq> element \<and> c \<in> set (classList st' e)
                           \<and> style_id s = style_key c)))"
proof -
  define st where "st = run str evs st0"
  define st' where "st' = disconnect st element"
  have owned: "styles_owned st"
    unfolding st_def using assms by (intro styles_owned_run styles_owned_start)
  have untracked: "st' = st" if "elementObservers st element = None"
    using that by (simp add: st'_def disconnect_def)
  have tracked: "elementObservers st' element = None
               \<and> (\<forall>e p. (observer, e, p) \<notin> set (observing st'))
               \<and> clipPath st' element = []
               \<and> inner_bg st' element = None
               \<and> classList st' element =
                   filter (\<lambda>c. \<not> startsWith c ''squircle-'') (classList st element)
               \<and> (\<forall>c \<in> set (classList st element).
                     startsWith c ''squircle-'' \<longrightarrow> getElementById st' (style_key c) = None)
               \<and> (\<forall>s \<in> set (head st').
                     \<exists>e c. e \<noteq> element \<and> c \<in> set (classList st' e)
                           \<and> style_id s = style_key c)"
    if t: "elementObservers st element = Some (observer, opts)" for observer opts
  proof -
    note eq = disconnect_tracked [OF t]
    have f1: "elementObservers st' element = None"
      by (simp add: st'_def eq)
    have f2: "\<forall>e p. (observer, e, p) \<notin> set (observing st')"
      by (simp add: st'_def eq)
    have f3: "clipPath st' element = []" "inner_bg st' element = None"
      by (simp_all add: st'_def eq)
    have f4: "classList st' element =
        filter (\<lambda>c. \<not> startsWith c ''squircle-'') (classList st element)"
      by (auto simp: st'_def eq fold_rsc_classList intro!: filter_cong)
    have f5: "getElementById st' (style_key c) = None"
      if "c \<in> set (classList st element)" "startsWith c ''squircle-''" for c
    proof -
      have "distinct (map style_id (head st))"
        using owned by (simp add: styles_owned_def)
      then have "style_key c \<notin> set (map style_id (head st'))"
        unfolding st'_def eq using that by (intro fold_rsc_absent) simp_all
      then show ?thesis
        by (simp add: getElementById_None_iff)
    qed
    have f6: "\<exists>e c. e \<noteq> element \<and> c \<in> set (classList st' e) \<and> style_id s = style_key c"
      if "s \<in> set (head st')" for s
    proof -
      have "style_id s \<in> set (map style_id (head (disconnect st element)))"
        using that by (simp add: st'_def)
      then show ?thesis
        using disconnect_owned(2) [OF owned, of "style_id s" element] t
        by (auto simp: st'_def)
    qed
    show ?thesis
      using f1 f2 f3 f4 f5 f6 by blast
  qed
  show ?thesis
    unfolding Let_def st_def [symmetric] st'_def [symmetric]
    using untracked tracked by blast
qed

lemma sample_head: "head bordered_page = []"
  by (simp add: bordered_page_def page_with_attributes_def page_with_box_def sample_page_def)

lemma sample_run_values:
  "(let st = run (\<lambda>x. []) sample_run bordered_page; st' = disconnect st 0
    in map_option fst (elementObservers st 0) = Some 1
     \<and> classList st 0 = [''squircle-1'', ''squircle-2'']
     \<and> map style_id (head st) = [''squircle-style-squircle-1'', ''squircle-style-squircle-2'']
     \<and> elementObservers st' 0 = None
     \<and> observing st' = []
     \<and> clipPath st' 0 = []
     \<and> inner_bg st' 0 = None
     \<and> classList st' 0 = []
     \<and> head st' = []
     \<and> elementObservers st 1 = None)"
  by code_simp

theorem disconnect_cleans_up_witness:
  "head bordered_page = []
   \<and> (let st = run (\<lambda>x. []) sample_run bordered_page; st' = disconnect st 0
      in elementObservers st 0 \<noteq> None
       \<and> classList st 0 = [''squircle-1'', ''squircle-2'']
       \<and> elementObservers st' 0 = None
       \<and> clipPath st' 0 = []
       \<and> inner_bg st' 0 = None
       \<and> classList st' 0 = []
       \<and> getElementById st' (style_key ''squircle-1'') = None
       \<and> getElementById st' (style_key ''squircle-2'') = None
       \<and> elementObservers st 1 = None
       \<and> disconnect st 1 = st)"
proof -
  define st where "st = run (\<lambda>x. []) sample_run bordered_page"
  have start: "head bordered_page = []"
    by (rule sample_head)
  have known: "map_option fst (elementObservers st 0) = Some 1"
      "classList st 0 = [''squircle-1'', ''squircle-2'']"
      "elementObservers st 1 = None"
    using sample_run_values by (simp_all add: st_def Let_def)
  obtain opts where tracked: "elementObservers st 0 = Some (1, opts)"
    using known(1) by auto
  have at0: "elementObservers (disconnect st 0) 0 = None
      \<and> clipPath (disconnect st 0) 0 = []
      \<and> inner_bg (disconnect st 0) 0 = None
      \<and> classList (disconnect st 0) 0 = []
      \<and> getElementById (disconnect st 0) (style_key ''squircle-1'') = None
      \<and> getElementById (disconnect st 0) (style_key ''squircle-2'') = None"
    using disconnect_cleans_up [OF start, of "\<lambda>x. []" sample_run 0] tracked known(2)
    by (simp add: Let_def st_def [symmetric] startsWith_def)
  have at1: "disconnect st 1 = st"
    using disconnect_cleans_up [OF start, of "\<lambda>x. []" sample_run 1] known(3)
    by (simp add: Let_def st_def [symmetric])
  show ?thesis
    using start known tracked at0 at1
    by (simp add: Let_def st_def [symmetric])
qed

section \<open>Repeated renders and mode changes\<close>

subsection \<open>The fixed build renders idempotently\<close>

lemma squircle_class_nonempty [simp]: "squircle_class n \<noteq> []"
  by (simp add: squircle_class_def)

lemma set_textContent_same:
  "\<forall>s \<in> set (head st). node s = n \<longrightarrow> textContent s = t \<Longrightarrow> set_textContent st n t = st"
proof -
  assume a: "\<forall>s \<in> set (head st). node s = n \<longrightarrow> textContent s = t"
  have "map (\<lambda>s. if node s = n then s\<lparr>textContent := t\<rparr> else s) (head st) = head st"
    using a by (induction "head st") (auto simp: map_idI)
  then show ?thesis
    by (simp add: set_textContent_def)
qed

lemma ensure_positioned_same:
  "position st e \<noteq> ''static'' \<Longrightarrow> ensure_positioned st e = st"
  by (simp add: ensure_positioned_def)

lemma set_clipPath_same:
  "clipPath st e = v \<Longrightarrow> set_clipPath st e v = st"
  by (simp add: set_clipPath_def fun_upd_idem)

lemma fixed_border_fixpoint:
  assumes "supportsClipPathPath st"
    and "clientSize st e = (w, h)" and "0 < w" and "0 < h"
    and "borderWidth opts = Some bw" and "0 < bw"
    and "SIZE_MAP st e = Some (w, h)"
    and "CLASS_MAP st e = Some c" and "c \<noteq> []"
    and "clipPath st e = path_value (getSvgPath str ind w h
           (cornerRadius opts) (cornerSmoothing opts) (preserveSmoothing opts))"
    and "position st e \<noteq> ''static''"
    and "STYLE_MAP st e = Some n"
    and "\<forall>s \<in> set (head st). node s = n \<longrightarrow>
           textContent s = InsetRule c bw (max 0 (w - bw * 2)) (max 0 (h - bw * 2))
             (getSvgPath str ind (max 0 (w - bw * 2)) (max 0 (h - bw * 2))
                (max 0 (cornerRadius opts - bw)) (cornerSmoothing opts) (preserveSmoothing opts))"
  shows "renderSquircle_fixed str ind st e opts = st"
proof -
  have size: "st\<lparr>SIZE_MAP := (SIZE_MAP st)(e := Some (w, h))\<rparr> = st"
    using assms(7) by (simp add: fun_upd_idem)
  have cls: "ensure_class st e = (st, c)"
    using assms(8,9) by (simp add: ensure_class_def)
  have "renderSquircle_fixed_border str ind st e opts w h bw
          (getSvgPath str ind w h (cornerRadius opts) (cornerSmoothing opts)
             (preserveSmoothing opts)) = st"
    using assms(10-13)
    by (simp add: renderSquircle_fixed_border_def cls Let_def set_clipPath_same
        ensure_positioned_same upsertBorderStyle_def set_textContent_same)
  then show ?thesis
    using assms(1-6) size by (simp add: renderSquircle_fixed_def Let_def)
qed

lemma head_set_textContent:
  "head (set_textContent st n t) =
     map (\<lambda>s. if node s = n then s\<lparr>textContent := t\<rparr> else s) (head st)"
  by (simp add: set_textContent_def)

lemma set_textContent_sets:
  "\<forall>s \<in> set (head (set_textContent st n t)). node s = n \<longrightarrow> textContent s = t"
proof (intro ballI impI)
  fix s
  assume mem: "s \<in> set (head (set_textContent st n t))" and n: "node s = n"
  from mem have "s \<in> (\<lambda>s. if node s = n then s\<lparr>textContent := t\<rparr> else s) ` set (head st)"
    unfolding head_set_textContent list.set_map .
  then obtain x where x: "s = (if node x = n then x\<lparr>textContent := t\<rparr> else x)"
    by blast
  show "textContent s = t"
  proof (cases "node x = n")
    case True
    then show ?thesis using x by simp
  next
    case False
    then show ?thesis using x n by simp
  qed
qed

lemma ensure_class_result:
  "CLASS_MAP (fst (ensure_class st e)) e = Some (snd (ensure_class st e))
   \<and> snd (ensure_class st e) \<noteq> []"
  by (simp add: ensure_class_def Let_def classList_add_def split: option.splits)

lemma ensure_class_fields [simp]:
  "supportsClipPathPath (fst (ensure_class st e)) = supportsClipPathPath st"
  "clientSize (fst (ensure_class st e)) = clientSize st"
  "SIZE_MAP (fst (ensure_class st e)) = SIZE_MAP st"
  "STYLE_MAP (fst (ensure_class st e)) = STYLE_MAP st"
  "position (fst (ensure_class st e)) = position st"
  "head (fst (ensure_class st e)) = head st"
  by (simp_all add: ensure_class_def Let_def classList_add_def split: option.splits)

lemma set_textContent_fields [simp]:
  "supportsClipPathPath (set_textContent st n t) = supportsClipPathPath st"
  "clientSize (set_textContent st n t) = clientSize st"
  "SIZE_MAP (set_textContent st n t) = SIZE_MAP st"
  "CLASS_MAP (set_textContent st n t) = CLASS_MAP st"
  "STYLE_MAP (set_textContent st n t) = STYLE_MAP st"
  "position (set_textContent st n t) = position st"
  "clipPath (set_textContent st n t) = clipPath st"
  by (simp_all add: set_textContent_def)

lemma upsert_unfold:
  "upsertBorderStyle st el c p iw ih bw =
     (case STYLE_MAP st el of
        Some n \<Rightarrow> set_textContent st n (InsetRule c bw iw ih p)
      | None \<Rightarrow>
          set_textContent
            ((fst (appendStyle st (style_key c)))\<lparr>STYLE_MAP :=
                (STYLE_MAP (fst (appendStyle st (style_key c))))
                  (el := Some (snd (appendStyle st (style_key c))))\<rparr>)
            (snd (appendStyle st (style_key c))) (InsetRule c bw iw ih p))"
  by (simp add: upsertBorderStyle_def Let_def split_def split: option.splits)

lemma upsert_result:
  "\<exists>n. STYLE_MAP (upsertBorderStyle st el c p iw ih bw) el = Some n
       \<and> (\<forall>s \<in> set (head (upsertBorderStyle st el c p iw ih bw)).
             node s = n \<longrightarrow> textContent s = InsetRule c bw iw ih p)"
proof (cases "STYLE_MAP st el")
  case None
  show ?thesis
    unfolding upsert_unfold None option.case
    by (rule exI [where x = "snd (appendStyle st (style_key c))"])
       (simp add: set_textContent_sets)
next
  case (Some n)
  show ?thesis
    unfolding upsert_unfold Some option.case
    by (rule exI [where x = n]) (simp add: set_textContent_sets Some)
qed

lemma appendStyle_fields [simp]:
  "supportsClipPathPath (fst (appendStyle st i)) = supportsClipPathPath st"
  "clientSize (fst (appendStyle st i)) = clientSize st"
  "SIZE_MAP (fst (appendStyle st i)) = SIZE_MAP st"
  "CLASS_MAP (fst (appendStyle st i)) = CLASS_MAP st"
  "STYLE_MAP (fst (appendStyle st i)) = STYLE_MAP st"
  "position (fst (appendStyle st i)) = position st"
  "clipPath (fst (appendStyle st i)) = clipPath st"
  by (simp_all add: appendStyle_def)

lemma upsert_fields [simp]:
  "supportsClipPathPath (upsertBorderStyle st el c p iw ih bw) = supportsClipPathPath st"
  "clientSize (upsertBorderStyle st el c p iw ih bw) = clientSize st"
  "SIZE_MAP (upsertBorderStyle st el c p iw ih bw) = SIZE_MAP st"
  "CLASS_MAP (upsertBorderStyle st el c p iw ih bw) = CLASS_MAP st"
  "position (upsertBorderStyle st el c p iw ih bw) = position st"
  "clipPath (upsertBorderStyle st el c p iw ih bw) = clipPath st"
  by (simp_all add: upsert_unfold split: option.splits)

lemma position_ensure_positioned: "position (ensure_positioned st e) e \<noteq> ''static''"
  by (simp add: ensure_positioned_def)

lemma ensure_positioned_fields [simp]:
  "supportsClipPathPath (ensure_positioned st e) = supportsClipPathPath st"
  "clientSize (ensure_positioned st e) = clientSize st"
  "SIZE_MAP (ensure_positioned st e) = SIZE_MAP st"
  "CLASS_MAP (ensure_positioned st e) = CLASS_MAP st"
  "STYLE_MAP (ensure_positioned st e) = STYLE_MAP st"
  "clipPath (ensure_positioned st e) = clipPath st"
  by (simp_all add: ensure_positioned_def)

lemma set_clipPath_fields [simp]:
  "supportsClipPathPath (set_clipPath st e v) = supportsClipPathPath st"
  "clientSize (set_clipPath st e v) = clientSize st"
  "SIZE_MAP (set_clipPath st e v) = SIZE_MAP st"
  "CLASS_MAP (set_clipPath st e v) = CLASS_MAP st"
  "STYLE_MAP (set_clipPath st e v) = STYLE_MAP st"
  "position (set_clipPath st e v) = position st"
  "clipPath (set_clipPath st e v) e = v"
  by (simp_all add: set_clipPath_def)

lemma fixed_border_idempotent:
  assumes "supportsClipPathPath st"
    and "clientSize st e = (w, h)" and "0 < w" and "0 < h"
    and "borderWidth opts = Some bw" and "0 < bw"
  shows "renderSquircle_fixed str ind (renderSquircle_fixed str ind st e opts) e opts =
           renderSquircle_fixed str ind st e opts"
proof -
  let ?outer = "getSvgPath str ind w h (cornerRadius opts) (cornerSmoothing opts)
                  (preserveSmoothing opts)"
  let ?iw = "max 0 (w - bw * 2)" and ?ih = "max 0 (h - bw * 2)"
  let ?inner = "getSvgPath str ind ?iw ?ih (max 0 (cornerRadius opts - bw))
                  (cornerSmoothing opts) (preserveSmoothing opts)"
  define st1 where "st1 = st\<lparr>SIZE_MAP := (SIZE_MAP st)(e := Some (w, h))\<rparr>"
  define c where "c = snd (ensure_class st1 e)"
  define st4 where "st4 = ensure_positioned
      (set_clipPath (fst (ensure_class st1 e)) e (path_value ?outer)) e"
  define R where "R = upsertBorderStyle st4 e c ?inner ?iw ?ih bw"
  have R: "renderSquircle_fixed str ind st e opts = R"
    using assms
    by (simp add: renderSquircle_fixed_def Let_def renderSquircle_fixed_border_def split_def
        R_def st4_def c_def st1_def)
  obtain n where n: "STYLE_MAP R e = Some n"
      "\<forall>s \<in> set (head R). node s = n \<longrightarrow> textContent s = InsetRule c bw ?iw ?ih ?inner"
    unfolding R_def using upsert_result by blast
  have cls: "CLASS_MAP R e = Some c" "c \<noteq> []"
    using ensure_class_result [of st1 e] by (simp_all add: R_def st4_def c_def)
  have "renderSquircle_fixed str ind R e opts = R"
  proof (rule fixed_border_fixpoint [where w = w and h = h and bw = bw and c = c and n = n])
    show "supportsClipPathPath R"
      using assms(1) by (simp add: R_def st4_def st1_def)
    show "clientSize R e = (w, h)"
      using assms(2) by (simp add: R_def st4_def st1_def)
    show "SIZE_MAP R e = Some (w, h)"
      by (simp add: R_def st4_def st1_def)
    show "clipPath R e = path_value ?outer"
      by (simp add: R_def st4_def)
    show "position R e \<noteq> ''static''"
      by (simp add: R_def st4_def position_ensure_positioned)
  qed (use assms n cls in simp_all)
  then show ?thesis
    by (simp add: R)
qed

lemma fixed_simple_unfold:
  assumes "supportsClipPathPath st"
    and "clientSize st e = (w, h)" and "0 < w" and "0 < h"
    and "\<not> (case borderWidth opts of None \<Rightarrow> 0 | Some b \<Rightarrow> b) > 0"
  shows "renderSquircle_fixed str ind st e opts =
     renderSquircle_fixed_simple (st\<lparr>SIZE_MAP := (SIZE_MAP st)(e := Some (w, h))\<rparr>) e
       (getSvgPath str ind w h (cornerRadius opts) (cornerSmoothing opts)
          (preserveSmoothing opts))"
  using assms by (simp add: renderSquircle_fixed_def Let_def)

lemma simple_fields [simp]:
  "supportsClipPathPath (renderSquircle_fixed_simple st e v) = supportsClipPathPath st"
  "clientSize (renderSquircle_fixed_simple st e v) = clientSize st"
  "SIZE_MAP (renderSquircle_fixed_simple st e v) = SIZE_MAP st"
  "clipPath (renderSquircle_fixed_simple st e v) e = path_value v"
  by (simp_all add: renderSquircle_fixed_simple_def Let_def classList_remove_def remove_node_def
      set_clipPath_def split: option.splits)

lemma simple_clears:
  assumes "CLASS_MAP st e = Some c" and "c \<noteq> []"
  shows "CLASS_MAP (renderSquircle_fixed_simple st e v) e = None"
    and "STYLE_MAP (renderSquircle_fixed_simple st e v) e = None"
    and "c \<notin> set (classList (renderSquircle_fixed_simple st e v) e)"
    and "STYLE_MAP st e = Some n \<Longrightarrow>
           \<forall>s \<in> set (head (renderSquircle_fixed_simple st e v)). node s \<noteq> n"
  using assms
  by (simp_all add: renderSquircle_fixed_simple_def Let_def classList_remove_def remove_node_def
      set_clipPath_def split: option.splits)

lemma simple_keeps:
  assumes "CLASS_MAP st e = None \<or> CLASS_MAP st e = Some []"
  shows "renderSquircle_fixed_simple st e v = set_clipPath st e (path_value v)"
  using assms by (auto simp: renderSquircle_fixed_simple_def)

lemma simple_class_after:
  "CLASS_MAP (renderSquircle_fixed_simple st e v) e = None
   \<or> CLASS_MAP (renderSquircle_fixed_simple st e v) e = Some []"
  by (simp add: renderSquircle_fixed_simple_def Let_def classList_remove_def remove_node_def
      set_clipPath_def split: option.splits)

lemma fixed_simple_idempotent:
  assumes "supportsClipPathPath st"
    and "clientSize st e = (w, h)" and "0 < w" and "0 < h"
    and "\<not> (case borderWidth opts of None \<Rightarrow> 0 | Some b \<Rightarrow> b) > 0"
  shows "renderSquircle_fixed str ind (renderSquircle_fixed str ind st e opts) e opts =
           renderSquircle_fixed str ind st e opts"
proof -
  let ?outer = "getSvgPath str ind w h (cornerRadius opts) (cornerSmoothing opts)
                  (preserveSmoothing opts)"
  define R where "R = renderSquircle_fixed_simple
      (st\<lparr>SIZE_MAP := (SIZE_MAP st)(e := Some (w, h))\<rparr>) e ?outer"
  have R: "renderSquircle_fixed str ind st e opts = R"
    unfolding R_def using assms by (rule fixed_simple_unfold)
  have again: "renderSquircle_fixed str ind R e opts =
      renderSquircle_fixed_simple (R\<lparr>SIZE_MAP := (SIZE_MAP R)(e := Some (w, h))\<rparr>) e ?outer"
    using assms by (intro fixed_simple_unfold) (simp_all add: R_def)
  have size: "R\<lparr>SIZE_MAP := (SIZE_MAP R)(e := Some (w, h))\<rparr> = R"
    by (simp add: R_def fun_upd_idem)
  have "renderSquircle_fixed_simple R e ?outer = set_clipPath R e (path_value ?outer)"
    unfolding R_def by (intro simple_keeps simple_class_after)
  also have "\<dots> = R"
    by (intro set_clipPath_same) (simp add: R_def)
  finally show ?thesis
    by (simp add: R again size)
qed

lemma renderSquircle_fixed_idempotent:
  assumes "supportsClipPathPath st"
  shows "renderSquircle_fixed str ind (renderSquircle_fixed str ind st e opts) e opts =
           renderSquircle_fixed str ind st e opts"
proof -
  obtain w h where size: "clientSize st e = (w, h)"
    by (cases "clientSize st e")
  show ?thesis
  proof (cases "w \<le> 0 \<or> h \<le> 0")
    case True
    then have "renderSquircle_fixed str ind st e opts = st"
      using assms size by (simp add: renderSquircle_fixed_def Let_def)
    then show ?thesis
      by simp
  next
    case False
    then have pos: "0 < w" "0 < h"
      by simp_all
    show ?thesis
    proof (cases "(case borderWidth opts of None \<Rightarrow> 0 | Some b \<Rightarrow> b) > 0")
      case True
      then obtain bw where "borderWidth opts = Some bw" "0 < bw"
        by (cases "borderWidth opts") simp_all
      then show ?thesis
        using assms size pos by (intro fixed_border_idempotent)
    next
      case False
      then show ?thesis
        using assms size pos by (intro fixed_simple_idempotent)
    qed
  qed
qed

subsection \<open>The two builds on the same calls\<close>

text \<open>
  C3 at a concrete input. Two border-mode renders of the same element, with the same options
  and the same box of 100 by 50. In the original build each render allocates an identifier:
  the counter ends at 2, the element carries the classes \<open>squircle-1\<close> and
  \<open>squircle-2\<close>, and the document head holds two style elements. In the fixed build the
  second render reuses the first identifier: counter 1, one class, one style element.
\<close>

theorem render_twice_builds:
  "(let st2 = renderSquircle str 10
               (renderSquircle str 10 (page_with_box 100 50) 0 border_options) 0 border_options
    in squircleCounter st2 = 2
       \<and> classList st2 0 = [''squircle-1'', ''squircle-2'']
       \<and> map style_id (head st2) = [''squircle-style-squircle-1'', ''squircle-style-squircle-2''])
   \<and> (let st2 = renderSquircle_fixed str 10
               (renderSquircle_fixed str 10 (page_with_box 100 50) 0 border_options)
               0 border_options
    in squircleCounter st2 = 1
       \<and> classList st2 0 = [''squircle-1'']
       \<and> map style_id (head st2) = [''squircle-style-squircle-1''])"
proof -
  have fixed: "renderSquircle_fixed str 10
      (renderSquircle_fixed str 10 (page_with_box 100 50) 0 border_options) 0 border_options =
      renderSquircle_fixed str 10 (page_with_box 100 50) 0 border_options"
    by (rule renderSquircle_fixed_idempotent) (simp add: page_with_box_def sample_page_def)
  have once: "squircleCounter (renderSquircle_fixed str 10 (page_with_box 100 50) 0 border_options) = 1
      \<and> classList (renderSquircle_fixed str 10 (page_with_box 100 50) 0 border_options) 0
          = [''squircle-1'']
      \<and> map style_id (head (renderSquircle_fixed str 10 (page_with_box 100 50) 0 border_options))
          = [''squircle-style-squircle-1'']"
    by (simp add: renderSquircle_fixed_def renderSquircle_fixed_border_def ensure_class_def
        upsertBorderStyle_def border_options_def page_with_box_def sample_page_def Let_def
        classList_add_def set_clipPath_def appendStyle_def set_textContent_def
        ensure_positioned_def squircle_class_def style_key_def)
  have original: "(let st2 = renderSquircle str 10
               (renderSquircle str 10 (page_with_box 100 50) 0 border_options) 0 border_options
    in squircleCounter st2 = 2
       \<and> classList st2 0 = [''squircle-1'', ''squircle-2'']
       \<and> map style_id (head st2) = [''squircle-style-squircle-1'', ''squircle-style-squircle-2''])"
    by (simp add: renderSquircle_def renderSquircle_border_def border_options_def
        page_with_box_def sample_page_def border_mode_def Let_def classList_add_def
        set_clipPath_def getElementById_def appendStyle_def set_textContent_def
        ensure_positioned_def squircle_class_def style_key_def)
  show ?thesis
    using original once by (simp add: fixed Let_def)
qed

text \<open>
  C4 at a concrete input. A simple-mode render that follows a border-mode render of the same
  element. The original build leaves the class \<open>squircle-1\<close> on the element and its
  style element in the document head. The fixed build removes both and forgets the element
  in \<open>CLASS_MAP\<close> and \<open>STYLE_MAP\<close>.
\<close>

theorem border_then_simple_builds:
  "(let st2 = renderSquircle str 10
               (renderSquircle str 10 (page_with_box 100 50) 0 border_options) 0 simple_options
    in classList st2 0 = [''squircle-1'']
       \<and> map style_id (head st2) = [''squircle-style-squircle-1''])
   \<and> (let st2 = renderSquircle_fixed str 10
               (renderSquircle_fixed str 10 (page_with_box 100 50) 0 border_options)
               0 simple_options
    in classList st2 0 = [] \<and> head st2 = []
       \<and> CLASS_MAP st2 0 = None \<and> STYLE_MAP st2 0 = None)"
proof -
  have original: "(let st2 = renderSquircle str 10
               (renderSquircle str 10 (page_with_box 100 50) 0 border_options) 0 simple_options
    in classList st2 0 = [''squircle-1'']
       \<and> map style_id (head st2) = [''squircle-style-squircle-1''])"
    by (simp add: renderSquircle_def renderSquircle_border_def border_options_def
        simple_options_def
        page_with_box_def sample_page_def border_mode_def Let_def classList_add_def
        set_clipPath_def getElementById_def appendStyle_def set_textContent_def
        ensure_positioned_def squircle_class_def style_key_def)
  have fixed: "(let st2 = renderSquircle_fixed str 10
               (renderSquircle_fixed str 10 (page_with_box 100 50) 0 border_options)
               0 simple_options
    in classList st2 0 = [] \<and> head st2 = []
       \<and> CLASS_MAP st2 0 = None \<and> STYLE_MAP st2 0 = None)"
    by (simp add: renderSquircle_fixed_def renderSquircle_fixed_border_def ensure_class_def
        renderSquircle_fixed_simple_def classList_remove_def remove_node_def
        upsertBorderStyle_def border_options_def simple_options_def page_with_box_def
        sample_page_def Let_def
        classList_add_def set_clipPath_def appendStyle_def set_textContent_def
        ensure_positioned_def squircle_class_def style_key_def)
  show ?thesis
    using original fixed by simp
qed

subsection \<open>The fixed build along a run\<close>

text \<open>
  Along any run of the fixed build from a page without generated style elements, every
  element has at most one style element, every style element of the head belongs to an
  element, a simple-mode render leaves the rendered element without style element and
  without generated class, and a border-mode render leaves it with one style element that
  carries the inner dimensions \<open>max(0, width - 2*borderWidth)\<close>,
  \<open>max(0, height - 2*borderWidth)\<close> and the inner outline.
\<close>

lemma fixed_inv_cong:
  "head st' = head st \<Longrightarrow> next_node st' = next_node st \<Longrightarrow> STYLE_MAP st' = STYLE_MAP st
     \<Longrightarrow> CLASS_MAP st' = CLASS_MAP st \<Longrightarrow> fixed_inv st' = fixed_inv st"
  by (simp add: fixed_inv_def)

lemma nodes_set_textContent:
  "map node (head (set_textContent st n t)) = map node (head st)"
  by (simp add: set_textContent_def comp_def)

lemma ensure_class_effect:
  "head (fst (ensure_class st e)) = head st"
  "next_node (fst (ensure_class st e)) = next_node st"
  "STYLE_MAP (fst (ensure_class st e)) = STYLE_MAP st"
  "CLASS_MAP (fst (ensure_class st e)) = (CLASS_MAP st)(e := Some (snd (ensure_class st e)))"
  "snd (ensure_class st e) \<noteq> []"
  by (auto simp: ensure_class_def Let_def classList_add_def split: option.splits)

lemma fixed_inv_ensure_class:
  assumes "fixed_inv st"
  shows "fixed_inv (fst (ensure_class st e))"
  using assms unfolding fixed_inv_def ensure_class_effect
  by (auto simp: ensure_class_effect(5))

lemma upsert_effect_some:
  assumes "STYLE_MAP st el = Some n"
  shows "map node (head (upsertBorderStyle st el c p iw ih bw)) = map node (head st)"
    "next_node (upsertBorderStyle st el c p iw ih bw) = next_node st"
    "STYLE_MAP (upsertBorderStyle st el c p iw ih bw) = STYLE_MAP st"
    "CLASS_MAP (upsertBorderStyle st el c p iw ih bw) = CLASS_MAP st"
  using assms
  by (simp_all add: upsertBorderStyle_def Let_def nodes_set_textContent set_textContent_def)

lemma upsert_effect_none:
  assumes "STYLE_MAP st el = None"
  shows "map node (head (upsertBorderStyle st el c p iw ih bw)) =
           map node (head st) @ [next_node st]"
    "next_node (upsertBorderStyle st el c p iw ih bw) = next_node st + 1"
    "STYLE_MAP (upsertBorderStyle st el c p iw ih bw) = (STYLE_MAP st)(el := Some (next_node st))"
    "CLASS_MAP (upsertBorderStyle st el c p iw ih bw) = CLASS_MAP st"
  using assms
  by (simp_all add: upsertBorderStyle_def Let_def appendStyle_def nodes_set_textContent
      set_textContent_def comp_def)

lemma fixed_inv_upsert:
  assumes "fixed_inv st" and "CLASS_MAP st el = Some c" and "c \<noteq> []"
  shows "fixed_inv (upsertBorderStyle st el c p iw ih bw)"
proof (cases "STYLE_MAP st el")
  case (Some n)
  show ?thesis
    using assms(1) unfolding fixed_inv_def upsert_effect_some [OF Some] .
next
  case None
  have fresh: "next_node st \<notin> set (map node (head st))"
    using assms(1) unfolding fixed_inv_def by fastforce
  have unowned: "STYLE_MAP st e \<noteq> Some (next_node st)" for e
    using assms(1) unfolding fixed_inv_def by fastforce
  have owner: "\<exists>e. ((STYLE_MAP st)(el := Some (next_node st))) e = Some n"
    if mem: "n \<in> set (map node (head st))" for n
  proof -
    obtain e where e: "STYLE_MAP st e = Some n"
      using assms(1) mem unfolding fixed_inv_def by blast
    then have "e \<noteq> el"
      using None by auto
    then show ?thesis
      using e by auto
  qed
  show ?thesis
    unfolding fixed_inv_def upsert_effect_none [OF None]
  proof (intro conjI)
    show "distinct (map node (head st) @ [next_node st])"
      using assms(1) fresh by (simp add: fixed_inv_def)
    show "\<forall>n \<in> set (map node (head st) @ [next_node st]).
            n < next_node st + 1 \<and> (\<exists>e. ((STYLE_MAP st)(el := Some (next_node st))) e = Some n)"
    proof
      fix n
      assume "n \<in> set (map node (head st) @ [next_node st])"
      then consider "n \<in> set (map node (head st))" | "n = next_node st"
        by auto
      then show "n < next_node st + 1 \<and>
          (\<exists>e. ((STYLE_MAP st)(el := Some (next_node st))) e = Some n)"
      proof cases
        case 1
        then have "n < next_node st"
          using assms(1) unfolding fixed_inv_def by blast
        then show ?thesis
          using owner [OF 1] by simp
      next
        case 2
        then show ?thesis
          by auto
      qed
    qed
    show "\<forall>e n. ((STYLE_MAP st)(el := Some (next_node st))) e = Some n \<longrightarrow>
            n \<in> set (map node (head st) @ [next_node st])
            \<and> (\<exists>c. CLASS_MAP st e = Some c \<and> c \<noteq> [])"
      using assms unfolding fixed_inv_def by auto
    show "\<forall>e e' n. ((STYLE_MAP st)(el := Some (next_node st))) e = Some n \<longrightarrow>
            ((STYLE_MAP st)(el := Some (next_node st))) e' = Some n \<longrightarrow> e = e'"
      using assms(1) unowned unfolding fixed_inv_def by (auto split: if_splits)
  qed
qed

lemma fixed_inv_set_clipPath [simp]: "fixed_inv (set_clipPath st e v) = fixed_inv st"
  by (rule fixed_inv_cong) (simp_all add: set_clipPath_def)

lemma fixed_inv_ensure_positioned [simp]: "fixed_inv (ensure_positioned st e) = fixed_inv st"
  by (rule fixed_inv_cong) (simp_all add: ensure_positioned_def)

lemma fixed_inv_updates [simp]:
  "fixed_inv (st\<lparr>SIZE_MAP := m\<rparr>) = fixed_inv st"
  "fixed_inv (st\<lparr>console := l\<rparr>) = fixed_inv st"
  "fixed_inv (st\<lparr>clientSize := b\<rparr>) = fixed_inv st"
  by (simp_all add: fixed_inv_def)

lemma fixed_inv_border:
  assumes "fixed_inv st"
  shows "fixed_inv (renderSquircle_fixed_border str ind st e opts w h bw outer)"
proof -
  define c where "c = snd (ensure_class st e)"
  define st4 where "st4 = ensure_positioned
      (set_clipPath (fst (ensure_class st e)) e (path_value outer)) e"
  have inv4: "fixed_inv st4"
    using assms by (simp add: st4_def fixed_inv_ensure_class)
  have cls: "CLASS_MAP st4 e = Some c" "c \<noteq> []"
    by (simp_all add: st4_def c_def ensure_class_effect set_clipPath_def ensure_positioned_def)
  have "renderSquircle_fixed_border str ind st e opts w h bw outer =
      upsertBorderStyle st4 e c
        (getSvgPath str ind (max 0 (w - bw * 2)) (max 0 (h - bw * 2))
           (max 0 (cornerRadius opts - bw)) (cornerSmoothing opts) (preserveSmoothing opts))
        (max 0 (w - bw * 2)) (max 0 (h - bw * 2)) bw"
    by (simp add: renderSquircle_fixed_border_def Let_def split_def st4_def c_def)
  then show ?thesis
    using fixed_inv_upsert [OF inv4 cls] by simp
qed

lemma simple_effect_clears:
  assumes "CLASS_MAP st e = Some c" and "c \<noteq> []"
  shows "map node (head (renderSquircle_fixed_simple st e v)) =
           (case STYLE_MAP st e of None \<Rightarrow> map node (head st)
            | Some n \<Rightarrow> filter (\<lambda>m. m \<noteq> n) (map node (head st)))"
    "next_node (renderSquircle_fixed_simple st e v) = next_node st"
    "STYLE_MAP (renderSquircle_fixed_simple st e v) = (STYLE_MAP st)(e := None)"
    "CLASS_MAP (renderSquircle_fixed_simple st e v) = (CLASS_MAP st)(e := None)"
  using assms
  by (simp_all add: renderSquircle_fixed_simple_def Let_def classList_remove_def remove_node_def
      set_clipPath_def filter_map comp_def split: option.splits)

lemma fixed_inv_simple:
  assumes "fixed_inv st"
  shows "fixed_inv (renderSquircle_fixed_simple st e v)"
proof (cases "\<exists>c. CLASS_MAP st e = Some c \<and> c \<noteq> []")
  case False
  then have "renderSquircle_fixed_simple st e v = set_clipPath st e (path_value v)"
    by (auto simp: renderSquircle_fixed_simple_def split: option.splits)
  then show ?thesis
    using assms by simp
next
  case True
  then obtain c where c: "CLASS_MAP st e = Some c" "c \<noteq> []"
    by blast
  note eff = simple_effect_clears [OF c]
  show ?thesis
  proof (cases "STYLE_MAP st e")
    case None
    show ?thesis
      using assms unfolding fixed_inv_def eff None option.case
      by (auto split: if_splits) (metis None option.distinct(1))+
  next
    case (Some n)
    have other: "e' \<noteq> e" if "STYLE_MAP st e' = Some m" "m \<noteq> n" for e' m
      using that Some by auto
    show ?thesis
      unfolding fixed_inv_def eff Some option.case
    proof (intro conjI)
      show "distinct (filter (\<lambda>m. m \<noteq> n) (map node (head st)))"
        using assms by (simp add: fixed_inv_def)
      show "\<forall>m \<in> set (filter (\<lambda>m. m \<noteq> n) (map node (head st))).
              m < next_node st \<and> (\<exists>e'. ((STYLE_MAP st)(e := None)) e' = Some m)"
      proof
        fix m
        assume "m \<in> set (filter (\<lambda>m. m \<noteq> n) (map node (head st)))"
        then have m: "m \<in> set (map node (head st))" "m \<noteq> n"
          by auto
        then obtain e' where e': "STYLE_MAP st e' = Some m" and lt: "m < next_node st"
          using assms unfolding fixed_inv_def by blast
        then have "e' \<noteq> e"
          using other m(2) by blast
        then show "m < next_node st \<and> (\<exists>e'. ((STYLE_MAP st)(e := None)) e' = Some m)"
          using e' lt by auto
      qed
      show "\<forall>e' m. ((STYLE_MAP st)(e := None)) e' = Some m \<longrightarrow>
              m \<in> set (filter (\<lambda>m. m \<noteq> n) (map node (head st)))
              \<and> (\<exists>c. ((CLASS_MAP st)(e := None)) e' = Some c \<and> c \<noteq> [])"
      proof (intro allI impI)
        fix e' m
        assume a: "((STYLE_MAP st)(e := None)) e' = Some m"
        then have e': "e' \<noteq> e" "STYLE_MAP st e' = Some m"
          by (auto split: if_splits)
        then have "m \<noteq> n"
          using assms Some unfolding fixed_inv_def by blast
        moreover have "m \<in> set (map node (head st))"
            "\<exists>c. CLASS_MAP st e' = Some c \<and> c \<noteq> []"
          using assms e'(2) unfolding fixed_inv_def by blast+
        ultimately show "m \<in> set (filter (\<lambda>m. m \<noteq> n) (map node (head st)))
              \<and> (\<exists>c. ((CLASS_MAP st)(e := None)) e' = Some c \<and> c \<noteq> [])"
          using e'(1) by simp
      qed
      show "\<forall>e1 e2 m. ((STYLE_MAP st)(e := None)) e1 = Some m \<longrightarrow>
              ((STYLE_MAP st)(e := None)) e2 = Some m \<longrightarrow> e1 = e2"
        using assms unfolding fixed_inv_def by (auto split: if_splits)
    qed
  qed
qed

lemma fixed_inv_render:
  assumes "fixed_inv st"
  shows "fixed_inv (renderSquircle_fixed str ind st e opts)"
  using assms
  by (simp add: renderSquircle_fixed_def Let_def fixed_inv_border fixed_inv_simple
      split: prod.splits)

lemma fixed_inv_run:
  "fixed_inv st \<Longrightarrow> fixed_inv (fixed_run str ind cs st)"
proof (induction cs arbitrary: st)
  case Nil
  then show ?case by simp
next
  case (Cons c cs)
  have "fixed_inv (fixed_step str ind c st)"
    using Cons.prems by (cases c) (simp_all add: fixed_inv_render)
  then show ?case
    using Cons.IH by simp
qed

lemma fixed_inv_start:
  "head st = [] \<Longrightarrow> \<forall>e. STYLE_MAP st e = None \<Longrightarrow> fixed_inv st"
  by (simp add: fixed_inv_def)

lemma distinct_map_filter_le_1:
  "distinct (map f xs) \<Longrightarrow> length (filter (\<lambda>x. f x = y) xs) \<le> 1"
proof (induction xs)
  case Nil
  then show ?case by simp
next
  case (Cons a xs)
  show ?case
  proof (cases "f a = y")
    case True
    then have "y \<notin> f ` set xs"
      using Cons.prems by auto
    then have "filter (\<lambda>x. f x = y) xs = []"
      by (auto simp: filter_empty_conv)
    then show ?thesis
      using True by simp
  next
    case False
    then show ?thesis
      using Cons by simp
  qed
qed

lemma fixed_build_one_style_per_element:
  assumes "head st0 = []" and "\<forall>e. STYLE_MAP st0 e = None"
  shows "(let st = fixed_run str ind cs st0
          in (\<forall>e. length (filter (\<lambda>s. STYLE_MAP st e = Some (node s)) (head st)) \<le> 1)
           \<and> (\<forall>s \<in> set (head st). \<exists>e. STYLE_MAP st e = Some (node s)))"
proof -
  define st where "st = fixed_run str ind cs st0"
  have inv: "fixed_inv st"
    unfolding st_def using assms by (intro fixed_inv_run fixed_inv_start)
  have one: "length (filter (\<lambda>s. STYLE_MAP st e = Some (node s)) (head st)) \<le> 1" for e
  proof (cases "STYLE_MAP st e")
    case None
    then show ?thesis by simp
  next
    case (Some n)
    have "filter (\<lambda>s. STYLE_MAP st e = Some (node s)) (head st) =
        filter (\<lambda>s. node s = n) (head st)"
      using Some by (intro filter_cong) auto
    moreover have "distinct (map node (head st))"
      using inv by (simp add: fixed_inv_def)
    ultimately show ?thesis
      using distinct_map_filter_le_1 [of node "head st" n] by simp
  qed
  have owned: "\<exists>e. STYLE_MAP st e = Some (node s)" if "s \<in> set (head st)" for s
    using inv that unfolding fixed_inv_def by auto
  show ?thesis
    unfolding Let_def st_def [symmetric] using one owned by blast
qed

lemma fixed_build_simple_leaves_none:
  assumes "head st0 = []" and "\<forall>e. STYLE_MAP st0 e = None"
    and "st = fixed_run str ind cs st0"
    and "supportsClipPathPath st"
    and "clientSize st e = (w, h)" and "0 < w" and "0 < h"
    and "\<not> (case borderWidth opts of None \<Rightarrow> 0 | Some b \<Rightarrow> b) > 0"
  shows "(let st' = renderSquircle_fixed str ind st e opts
          in STYLE_MAP st' e = None
           \<and> (\<forall>s \<in> set (head st'). \<exists>e'. e' \<noteq> e \<and> STYLE_MAP st' e' = Some (node s))
           \<and> (\<forall>c. CLASS_MAP st e = Some c \<longrightarrow> c \<noteq> [] \<longrightarrow>
                  CLASS_MAP st' e = None \<and> c \<notin> set (classList st' e)))"
proof -
  define st1 where "st1 = st\<lparr>SIZE_MAP := (SIZE_MAP st)(e := Some (w, h))\<rparr>"
  define st' where "st' = renderSquircle_fixed_simple st1 e
      (getSvgPath str ind w h (cornerRadius opts) (cornerSmoothing opts) (preserveSmoothing opts))"
  have eq: "renderSquircle_fixed str ind st e opts = st'"
    using assms(4-8) by (simp add: renderSquircle_fixed_def Let_def st'_def st1_def)
  have inv: "fixed_inv st"
    unfolding assms(3) using assms(1,2) by (intro fixed_inv_run fixed_inv_start)
  then have inv1: "fixed_inv st1"
    by (simp add: st1_def)
  then have inv': "fixed_inv st'"
    unfolding st'_def by (rule fixed_inv_simple)
  have none: "STYLE_MAP st' e = None"
  proof (cases "\<exists>c. CLASS_MAP st1 e = Some c \<and> c \<noteq> []")
    case True
    then obtain c where "CLASS_MAP st1 e = Some c" "c \<noteq> []"
      by blast
    then show ?thesis
      unfolding st'_def by (simp add: simple_effect_clears)
  next
    case False
    then have "STYLE_MAP st1 e = None"
      using inv1 unfolding fixed_inv_def by (cases "STYLE_MAP st1 e") auto
    moreover have "renderSquircle_fixed_simple st1 e v = set_clipPath st1 e (path_value v)" for v
      using False by (auto simp: renderSquircle_fixed_simple_def split: option.splits)
    ultimately show ?thesis
      by (simp add: st'_def set_clipPath_def)
  qed
  have others: "\<exists>e'. e' \<noteq> e \<and> STYLE_MAP st' e' = Some (node s)" if mem: "s \<in> set (head st')" for s
  proof -
    obtain e' where "STYLE_MAP st' e' = Some (node s)"
      using inv' mem unfolding fixed_inv_def by auto
    then show ?thesis
      using none by (intro exI [where x = e']) auto
  qed
  have cleared: "CLASS_MAP st' e = None \<and> c \<notin> set (classList st' e)"
    if "CLASS_MAP st e = Some c" "c \<noteq> []" for c
    using that
    by (simp add: st'_def st1_def renderSquircle_fixed_simple_def Let_def classList_remove_def
        remove_node_def set_clipPath_def split: option.splits)
  show ?thesis
    unfolding Let_def eq using none others cleared by blast
qed

lemma fixed_build_border_rule:
  assumes "head st0 = []" and "\<forall>e. STYLE_MAP st0 e = None"
    and "st = fixed_run str ind cs st0"
    and "supportsClipPathPath st"
    and "clientSize st e = (w, h)" and "0 < w" and "0 < h"
    and "borderWidth opts = Some bw" and "0 < bw"
  shows "(let st' = renderSquircle_fixed str ind st e opts
          in \<exists>s \<in> set (head st'). \<exists>c.
               STYLE_MAP st' e = Some (node s) \<and> CLASS_MAP st' e = Some c
               \<and> textContent s =
                   InsetRule c bw (max 0 (w - 2 * bw)) (max 0 (h - 2 * bw))
                     (getSvgPath str ind (max 0 (w - 2 * bw)) (max 0 (h - 2 * bw))
                        (max 0 (cornerRadius opts - bw)) (cornerSmoothing opts)
                        (preserveSmoothing opts)))"
proof -
  let ?outer = "getSvgPath str ind w h (cornerRadius opts) (cornerSmoothing opts)
                  (preserveSmoothing opts)"
  let ?iw = "max 0 (w - bw * 2)" and ?ih = "max 0 (h - bw * 2)"
  let ?inner = "getSvgPath str ind ?iw ?ih (max 0 (cornerRadius opts - bw))
                  (cornerSmoothing opts) (preserveSmoothing opts)"
  define st1 where "st1 = st\<lparr>SIZE_MAP := (SIZE_MAP st)(e := Some (w, h))\<rparr>"
  define c where "c = snd (ensure_class st1 e)"
  define st4 where "st4 = ensure_positioned
      (set_clipPath (fst (ensure_class st1 e)) e (path_value ?outer)) e"
  define R where "R = upsertBorderStyle st4 e c ?inner ?iw ?ih bw"
  have R: "renderSquircle_fixed str ind st e opts = R"
    using assms(4-9)
    by (simp add: renderSquircle_fixed_def Let_def renderSquircle_fixed_border_def split_def
        R_def st4_def c_def st1_def)
  have "fixed_inv st"
    unfolding assms(3) using assms(1,2) by (intro fixed_inv_run fixed_inv_start)
  then have "fixed_inv (renderSquircle_fixed str ind st e opts)"
    by (rule fixed_inv_render)
  then have inv: "fixed_inv R"
    by (simp add: R)
  obtain n where n: "STYLE_MAP R e = Some n"
      "\<forall>s \<in> set (head R). node s = n \<longrightarrow> textContent s = InsetRule c bw ?iw ?ih ?inner"
    unfolding R_def using upsert_result by blast
  have "n \<in> set (map node (head R))"
    using inv n(1) unfolding fixed_inv_def by blast
  then obtain s where s: "s \<in> set (head R)" "node s = n"
    by auto
  have cls: "CLASS_MAP R e = Some c"
    by (simp add: R_def st4_def c_def ensure_class_effect set_clipPath_def
        ensure_positioned_def)
  have "STYLE_MAP R e = Some (node s) \<and> CLASS_MAP R e = Some c
      \<and> textContent s = InsetRule c bw ?iw ?ih ?inner"
    using n s cls by simp
  then show ?thesis
    unfolding Let_def R using s(1) by (auto simp: mult.commute)
qed

end
